theory Spec2Isabelle
  imports Complex_Main
begin

section \<open>Dense arrays\<close>

text \<open>
  The repository computes on numpy arrays of floats. A two-dimensional array is modelled
  row-major as a list of rows, a float as a real number. A column vector of shape (n, 1),
  which the filters use for states, inputs and outputs, is an n-row matrix with one entry
  per row. The operands of a product or a sum are taken to have conformable shapes, as
  they have in every run that does not stop with numpy's shape error. An array without
  rows is the empty list, so its number of columns is not recorded; the histories of an
  engine have a row for every state, input and output of the plant.
\<close>

type_synonym vec = "real list"
type_synonym mat = "real list list"

definition nrows :: "'a list list \<Rightarrow> nat" where
  "nrows M = length M"

definition ncols :: "'a list list \<Rightarrow> nat" where
  "ncols M = (case M of [] \<Rightarrow> 0 | r # _ \<Rightarrow> length r)"

text \<open>\<open>M[:, j]\<close>: column \<open>j\<close> as a flat vector.\<close>

definition col :: "'a list list \<Rightarrow> nat \<Rightarrow> 'a list" where
  "col M j = map (\<lambda>r. r ! j) M"

text \<open>\<open>np.reshape(v, (-1, 1))\<close> and \<open>M.flatten()\<close>.\<close>

definition reshape_col :: "'a list \<Rightarrow> 'a list list" where
  "reshape_col v = map (\<lambda>x. [x]) v"

definition flatten :: "'a list list \<Rightarrow> 'a list" where
  "flatten M = concat M"

definition mat_T :: "mat \<Rightarrow> mat" where
  "mat_T M = map (col M) [0..<ncols M]"

definition dot :: "vec \<Rightarrow> vec \<Rightarrow> real" where
  "dot u v = sum_list (map2 (*) u v)"

definition mat_mul :: "mat \<Rightarrow> mat \<Rightarrow> mat" where
  "mat_mul X Y = map (\<lambda>r. map (\<lambda>j. dot r (col Y j)) [0..<ncols Y]) X"

definition mat_add :: "mat \<Rightarrow> mat \<Rightarrow> mat" where
  "mat_add X Y = map2 (map2 (+)) X Y"

definition mat_sub :: "mat \<Rightarrow> mat \<Rightarrow> mat" where
  "mat_sub X Y = map2 (map2 (-)) X Y"

definition smul :: "real \<Rightarrow> mat \<Rightarrow> mat" where
  "smul c X = map (map ((*) c)) X"

definition eye :: "nat \<Rightarrow> mat" where
  "eye n = map (\<lambda>i. map (\<lambda>j. if i = j then 1 else 0) [0..<n]) [0..<n]"

definition zeros :: "nat \<Rightarrow> nat \<Rightarrow> mat" where
  "zeros r c = replicate r (replicate c 0)"

text \<open>\<open>np.array(M).all()\<close>: every entry is nonzero.\<close>

definition np_all :: "mat \<Rightarrow> bool" where
  "np_all M = list_all (list_all (\<lambda>x. x \<noteq> 0)) M"

text \<open>
  An n-by-m array: n rows of m entries each.
\<close>

definition rect :: "nat \<Rightarrow> nat \<Rightarrow> 'a list list \<Rightarrow> bool" where
  "rect n m M = (length M = n \<and> list_all (\<lambda>r. length r = m) M)"

section \<open>Exceptions\<close>

datatype error = IndexError | ValueError | AttributeError | NameError | LinAlgError

text \<open>
  A method that raises leaves the object as the statements before the raise made it, so
  the outcome of a method call carries the object in both cases.
\<close>

datatype 's outcome = Returned 's | Raised error 's

text \<open>
  \<open>np.linalg.inv\<close> and \<open>np.linalg.cholesky\<close> belong to numpy, not to the repository:
  they are parameters of the model. \<open>None\<close> is numpy's \<open>LinAlgError\<close>.
\<close>

record linalg =
  np_inv :: "mat \<Rightarrow> mat option"
  np_cholesky :: "mat \<Rightarrow> mat option"

section \<open>Linear systems: LtiGroup\<close>

text \<open>
  \<open>LtiGroup.__init__\<close> for a system given as \<open>(A, B, C, D)\<close>: the system matrices, the
  dimensions read from them and the noise covariances. The delay buffer, the state and
  output arrays and the Cholesky factors of the same constructor are attributes of the
  record \<open>lti_fields\<close> further down, which extends this one.
\<close>

record Structure =
  sys_A :: mat
  sys_B :: mat
  sys_C :: mat
  sys_D :: mat

record LtiGroup =
  lti_A :: mat
  lti_B :: mat
  lti_C :: mat
  lti_D :: mat
  lti_n_states :: nat
  lti_n_inputs :: nat
  lti_n_outputs :: nat
  lti_Q :: mat
  lti_R :: mat

definition LtiGroup_system :: "mat \<times> mat \<times> mat \<times> mat \<Rightarrow> Structure" where
  "LtiGroup_system inserted_system =
     (case inserted_system of (a, b, c, d) \<Rightarrow>
        let system = \<lparr>sys_A = a, sys_B = b, sys_C = c, sys_D = d\<rparr>
        in if np_all d = False
           then system\<lparr>sys_D := zeros (nrows (sys_C system)) (ncols (sys_B system))\<rparr>
           else system)"

definition LtiGroup_init ::
  "mat \<times> mat \<times> mat \<times> mat \<Rightarrow> mat option \<Rightarrow> mat option \<Rightarrow> LtiGroup" where
  "LtiGroup_init inserted_system process_noise measurement_noise =
     (let system = LtiGroup_system inserted_system;
          n_states = nrows (sys_A system);
          n_inputs = ncols (sys_B system);
          n_outputs = nrows (sys_C system)
      in \<lparr>lti_A = sys_A system, lti_B = sys_B system, lti_C = sys_C system,
          lti_D = sys_D system,
          lti_n_states = n_states, lti_n_inputs = n_inputs, lti_n_outputs = n_outputs,
          lti_Q = (case process_noise of Some q \<Rightarrow> q | None \<Rightarrow> zeros n_states n_states),
          lti_R = (case measurement_noise of Some r \<Rightarrow> r
                   | None \<Rightarrow> zeros n_outputs n_outputs)\<rparr>)"

section \<open>LinearKalmanFilter\<close>

record lkf_fields =
  lkf_A :: mat
  lkf_B :: mat
  lkf_C :: mat
  lkf_D :: mat
  lkf_Q :: mat
  lkf_R :: mat
  lkf_n_states :: nat
  lkf_n_inputs :: nat
  lkf_n_outputs :: nat
  x_pr :: mat
  x_ps :: mat
  res :: mat
  K :: mat
  P_pr :: mat
  P_ps :: mat

text \<open>
  The object: its attributes and the \<open>backup\<close> attribute, the copy of the attribute
  dictionary taken at the end of \<open>__init__\<close>. The copy is shallow, and no method writes
  into an array that the dictionary holds (every update binds a new array), so the backup
  keeps the constructor-time values.
\<close>

record LinearKalmanFilter =
  attrs :: lkf_fields
  backup :: lkf_fields

datatype lkf_system = SysTuple mat mat mat mat | SysLti LtiGroup

record lkf_kwargs =
  kw_x_0 :: "vec option"
  kw_P_0 :: "mat option"
  kw_process_noise :: "mat option"
  kw_measurement_noise :: "mat option"

definition lkf_init_fields :: "lkf_system \<Rightarrow> lkf_kwargs \<Rightarrow> lkf_fields" where
  "lkf_init_fields inserted_system kw =
     (let (a, b, c, d0, q0, r0) =
            (case inserted_system of
               SysTuple a b c d \<Rightarrow>
                 (a, b, c, d, smul (1 / 10000) (eye (nrows a)), smul (1 / 10000) (eye (nrows c)))
             | SysLti g \<Rightarrow> (lti_A g, lti_B g, lti_C g, lti_D g, lti_Q g, lti_R g));
          d = (if np_all d0 = False then zeros (nrows c) (ncols b) else d0);
          n_states = nrows a;
          n_inputs = ncols b;
          n_outputs = nrows c
      in \<lparr>lkf_A = a, lkf_B = b, lkf_C = c, lkf_D = d,
          lkf_Q = (case kw_process_noise kw of
                     Some q \<Rightarrow> if nrows q + ncols q = 2 * n_states then q else q0
                   | None \<Rightarrow> q0),
          lkf_R = (case kw_measurement_noise kw of
                     Some r \<Rightarrow> if nrows r + ncols r = 2 * n_outputs then r else r0
                   | None \<Rightarrow> r0),
          lkf_n_states = n_states, lkf_n_inputs = n_inputs, lkf_n_outputs = n_outputs,
          x_pr = zeros n_states 1,
          x_ps = (case kw_x_0 kw of
                    Some x0 \<Rightarrow> if length x0 = n_states then reshape_col x0
                               else zeros n_states 1
                  | None \<Rightarrow> zeros n_states 1),
          res = zeros n_outputs 1,
          K = zeros n_states n_outputs,
          P_pr = eye n_states,
          P_ps = (case kw_P_0 kw of
                    Some p0 \<Rightarrow> if nrows p0 + ncols p0 = 2 * n_states then p0
                               else smul 1000 (eye n_states)
                  | None \<Rightarrow> smul 1000 (eye n_states))\<rparr>)"

definition lkf_init :: "lkf_system \<Rightarrow> lkf_kwargs \<Rightarrow> LinearKalmanFilter" where
  "lkf_init inserted_system kw =
     (let f = lkf_init_fields inserted_system kw in \<lparr>attrs = f, backup = f\<rparr>)"

text \<open>
  \<open>LinearKalmanFilter.__call__\<close>. Each line reads the attributes as the lines before it
  left them. The only statement that can raise on conformable operands is the inverse; by
  then \<open>x_pr\<close> and \<open>P_pr\<close> have been written.
\<close>

definition lkf_call ::
  "linalg \<Rightarrow> vec \<Rightarrow> vec \<Rightarrow> LinearKalmanFilter \<Rightarrow> LinearKalmanFilter outcome" where
  "lkf_call la inputs outputs self =
     (let f0 = attrs self;
          f1 = f0\<lparr>x_pr := mat_add (mat_mul (lkf_A f0) (x_ps f0))
                                    (mat_mul (lkf_B f0) (reshape_col inputs))\<rparr>;
          f2 = f1\<lparr>P_pr := mat_add (mat_mul (mat_mul (lkf_A f1) (P_ps f1)) (mat_T (lkf_A f1)))
                                    (lkf_Q f1)\<rparr>
      in case np_inv la (mat_add (mat_mul (mat_mul (lkf_C f2) (P_pr f2)) (mat_T (lkf_C f2)))
                                 (lkf_R f2)) of
           None \<Rightarrow> Raised LinAlgError (self\<lparr>attrs := f2\<rparr>)
         | Some si \<Rightarrow>
             let f3 = f2\<lparr>K := mat_mul (mat_mul (P_pr f2) (mat_T (lkf_C f2))) si\<rparr>;
                 f4 = f3\<lparr>res := mat_sub (reshape_col outputs) (mat_mul (lkf_C f3) (x_pr f3))\<rparr>;
                 f5 = f4\<lparr>x_ps := mat_add (x_pr f4) (mat_mul (K f4) (res f4))\<rparr>;
                 f6 = f5\<lparr>P_ps := mat_mul (mat_sub (eye (lkf_n_states f5))
                                                     (mat_mul (K f5) (lkf_C f5)))
                                            (P_pr f5)\<rparr>
             in Returned (self\<lparr>attrs := f6\<rparr>))"

text \<open>\<open>LinearKalmanFilter.reset\<close>: the attributes become the backup, which is copied anew.\<close>

definition lkf_reset :: "LinearKalmanFilter \<Rightarrow> LinearKalmanFilter" where
  "lkf_reset self = (let temp_1 = backup self in \<lparr>attrs = temp_1, backup = temp_1\<rparr>)"

text \<open>
  The recursion of the specification, section 4.3, from its words: a function of the
  system matrices, the prior posterior pair, the input and the output, with a given
  inverse \<open>si\<close> of the innovation covariance. It returns
  \<open>(x_pr, P_pr, K, r, x_ps, P_ps)\<close>.
\<close>

definition innovation_cov :: "mat \<Rightarrow> mat \<Rightarrow> mat \<Rightarrow> mat \<Rightarrow> mat \<Rightarrow> mat" where
  "innovation_cov a c q r p_ps =
     mat_add (mat_mul (mat_mul c (mat_add (mat_mul (mat_mul a p_ps) (mat_T a)) q)) (mat_T c)) r"

definition closed_form ::
  "mat \<Rightarrow> mat \<Rightarrow> mat \<Rightarrow> mat \<Rightarrow> nat \<Rightarrow> mat \<Rightarrow> mat \<Rightarrow> mat \<Rightarrow> vec \<Rightarrow> vec \<Rightarrow>
   mat \<times> mat \<times> mat \<times> mat \<times> mat \<times> mat" where
  "closed_form a b c q n si xps pps u y =
     (let xpr = mat_add (mat_mul a xps) (mat_mul b (reshape_col u));
          ppr = mat_add (mat_mul (mat_mul a pps) (mat_T a)) q;
          k = mat_mul (mat_mul ppr (mat_T c)) si;
          r = mat_sub (reshape_col y) (mat_mul c xpr)
      in (xpr, ppr, k, r, mat_add xpr (mat_mul k r),
          mat_mul (mat_sub (eye n) (mat_mul k c)) ppr))"

section \<open>The plant contract\<close>

text \<open>
  A plant is a subclass of \<open>Nonlinear\<close>: class attributes and four methods. The methods
  receive the whole state history, the whole input history and the step index. A class
  attribute that a plant class may lack is an option: \<open>QuadrupleTank\<close> and \<open>TwoTanks\<close>
  define \<open>q_atrix\<close> and no \<open>q_matrix\<close>, and no class among the sources defines
  \<open>num_states\<close> (the plants define \<open>n_states\<close>), so reading them raises
  \<open>AttributeError\<close>.

  \<open>_jacobians\<close> returns \<open>(A, B, H, D, L, M)\<close>. It receives \<open>self.states\<close> itself, and the
  tank models write into it, so the model of the method returns the state history as the
  call leaves it beside its result. The other three methods of the repository's plants
  write into nothing they receive.
\<close>

type_synonym jac = "mat \<times> mat \<times> mat \<times> mat \<times> mat \<times> mat"

datatype solver = Euler | RK4

record plant =
  n_states :: nat
  n_inputs :: nat
  n_outputs :: nat
  time_type :: string
  class_solver_type :: solver
  initial_states :: vec
  class_covariance :: mat
  q_matrix :: "mat option"
  r_matrix :: mat
  kappa :: real
  alpha :: real
  num_states :: "nat option"
  dynamics :: "mat \<Rightarrow> mat \<Rightarrow> nat \<Rightarrow> real \<Rightarrow> real \<Rightarrow> error + mat"
  measurements :: "mat \<Rightarrow> mat \<Rightarrow> nat \<Rightarrow> real \<Rightarrow> real \<Rightarrow> error + mat"
  limitations :: "mat \<Rightarrow> nat \<Rightarrow> mat"
  jacobians :: "mat \<Rightarrow> mat \<Rightarrow> nat \<Rightarrow> real \<Rightarrow> real \<Rightarrow> (error + jac) \<times> mat"

section \<open>The integrator\<close>

text \<open>\<open>X + c * v\<close> for an array \<open>X\<close> and a column \<open>v\<close>, which numpy adds to every column.\<close>

definition add_bcast :: "mat \<Rightarrow> real \<Rightarrow> mat \<Rightarrow> mat" where
  "add_bcast X c V =
     map2 (\<lambda>r v. case v of [] \<Rightarrow> r | d # _ \<Rightarrow> map (\<lambda>x. x + c * d) r) X V"

text \<open>
  Modelled from the spec: \<open>SolverCore.dynamic_runner\<close> of \<open>core/lib/core_library.py\<close>,
  which is not among the sources. Section 4.1 gives its contract
  \<open>integrate(derivative_fn, x_for_eval, x_base, dt, method)\<close> for the two methods.
\<close>

definition dynamic_runner ::
  "(mat \<Rightarrow> error + mat) \<Rightarrow> mat \<Rightarrow> mat \<Rightarrow> real \<Rightarrow> solver \<Rightarrow> error + mat" where
  "dynamic_runner derivative_fn x_for_eval x_base dt method =
     (case method of
        Euler \<Rightarrow>
          (case derivative_fn x_for_eval of Inl e \<Rightarrow> Inl e
           | Inr k1 \<Rightarrow> Inr (mat_add x_base (smul dt k1)))
      | RK4 \<Rightarrow>
          (case derivative_fn x_for_eval of Inl e \<Rightarrow> Inl e
           | Inr k1 \<Rightarrow>
          (case derivative_fn (add_bcast x_for_eval (dt / 2) k1) of Inl e \<Rightarrow> Inl e
           | Inr k2 \<Rightarrow>
          (case derivative_fn (add_bcast x_for_eval (dt / 2) k2) of Inl e \<Rightarrow> Inl e
           | Inr k3 \<Rightarrow>
          (case derivative_fn (add_bcast x_for_eval dt k3) of Inl e \<Rightarrow> Inl e
           | Inr k4 \<Rightarrow>
               Inr (mat_add x_base
                     (smul (dt / 6)
                        (mat_add (mat_add k1 (smul 2 k2)) (mat_add (smul 2 k3) k4)))))))))"

section \<open>The Nonlinear engine\<close>

text \<open>
  \<open>M[:, k] = v\<close> for a flat \<open>v\<close>: \<open>IndexError\<close> when the array has no column \<open>k\<close>,
  \<open>ValueError\<close> when \<open>v\<close> has neither one entry per row nor a single entry, which numpy
  broadcasts.
\<close>

definition set_col :: "'a list list \<Rightarrow> nat \<Rightarrow> 'a list \<Rightarrow> error + 'a list list" where
  "set_col M k v =
     (if \<not> k < ncols M then Inl IndexError
      else if length v = nrows M then Inr (map2 (\<lambda>r x. r[k := x]) M v)
      else (case v of [x] \<Rightarrow> Inr (map (\<lambda>r. r[k := x]) M) | _ \<Rightarrow> Inl ValueError))"

text \<open>
  The UKF working set. \<open>wm\<close> and \<open>wc\<close> are references to arrays: the constructor binds
  both names to one array, so the arrays live in a store and the names hold addresses.
\<close>

record ukf_set =
  n_ukf :: nat
  lambd :: real
  betta :: real
  wm :: nat
  wc :: nat
  arrays :: "nat \<Rightarrow> vec"

text \<open>
  The engine object. A float that is not-a-number occurs in the model only where the
  engine's interface gives it a meaning, as the marker of a missing measurement: an entry
  of an output vector, and so of the output history, is \<open>None\<close> for not-a-number.
\<close>

record Nonlinear =
  time_line :: vec
  sample_time :: real
  n_steps :: nat
  solver_type :: solver
  current_step :: nat
  inputs :: mat
  outputs :: "real option list list"
  states :: mat
  estimator :: bool
  est_approach :: "string option"
  covariance :: mat
  ukf :: "ukf_set option"

record nl_kwargs =
  kw_initial :: "vec option"
  kw_approach :: "string option"
  kw_solver :: "solver option"
  kw_estimator :: "bool option"

text \<open>
  \<open>np.mean(time_line[0, 1:-1] - time_line[0, 0:-2])\<close>. For a time line of fewer than
  three instants numpy's mean of nothing is not-a-number; the model's is \<open>0 / 0\<close>.
\<close>

definition mean_step :: "vec \<Rightarrow> real" where
  "mean_step tline =
     (let a = butlast (drop 1 tline); b = butlast (butlast tline)
      in sum_list (map2 (-) a b) / real (length a))"

text \<open>
  The weights of \<open>__init__\<close>, lines 933 to 935: one array is allocated (at address 0),
  \<open>wc = wm\<close> copies the reference, and the write to \<open>wc[0, 0]\<close> is a write into the one
  array.
\<close>

definition ukf_weights :: "nat \<Rightarrow> real \<Rightarrow> real \<Rightarrow> real \<Rightarrow> ukf_set" where
  "ukf_weights n a kap bet =
     (let lam = a\<^sup>2 * (real n + kap) - real n;
          heap0 = (\<lambda>_. []);
          wm_ref = (0::nat);
          heap1 = heap0(wm_ref := replicate (2 * n + 1) (1 / (2 * (real n + lam))));
          wc_ref = wm_ref;
          heap2 = heap1(wc_ref := (heap1 wc_ref)[0 := heap1 wm_ref ! 0 + (1 - a\<^sup>2 + bet)])
      in \<lparr>n_ukf = n, lambd = lam, betta = bet, wm = wm_ref, wc = wc_ref, arrays = heap2\<rparr>)"

definition Nonlinear_init :: "plant \<Rightarrow> vec \<Rightarrow> nl_kwargs \<Rightarrow> error + Nonlinear" where
  "Nonlinear_init p tline kw =
     (let n = length tline;
          states0 = zeros (n_states p) (n + 1)
      in case set_col states0 0 (initial_states p) of Inl e \<Rightarrow> Inl e
         | Inr states1 \<Rightarrow>
       (case (case kw_initial kw of None \<Rightarrow> Inr states1 | Some v \<Rightarrow> set_col states1 0 v) of
          Inl e \<Rightarrow> Inl e
        | Inr states2 \<Rightarrow>
          let est_approach0 = (case kw_approach kw of None \<Rightarrow> ''ekf'' | Some a \<Rightarrow> a);
              self = \<lparr>time_line = tline, sample_time = mean_step tline, n_steps = n,
                      solver_type = (case kw_solver kw of None \<Rightarrow> class_solver_type p
                                     | Some v \<Rightarrow> v),
                      current_step = 0,
                      inputs = zeros (n_inputs p) n,
                      outputs = replicate (n_outputs p) (replicate n (Some 0)),
                      states = states2,
                      estimator = (kw_estimator kw \<noteq> None),
                      est_approach = None,
                      covariance = class_covariance p,
                      ukf = None\<rparr>
          in if estimator self
             then (if est_approach0 = ''ukf''
                   then (case num_states p of None \<Rightarrow> Inl AttributeError
                         | Some nu \<Rightarrow>
                             Inr (self\<lparr>est_approach := Some est_approach0,
                                        ukf := Some (ukf_weights nu (alpha p) (kappa p) 2)\<rparr>))
                   else Inr (self\<lparr>est_approach := Some est_approach0\<rparr>))
             else Inr self))"

subsection \<open>The extended Kalman filter tick\<close>

text \<open>
  The state prediction shared by the simulator and the filters (lines 1045 to 1066): the
  base point \<open>xm\<close> is column \<open>k\<close> of the state history as a column vector, the
  derivative is evaluated on the limited history \<open>xv\<close>.
\<close>

definition predict_state :: "plant \<Rightarrow> Nonlinear \<Rightarrow> error + mat" where
  "predict_state p self =
     (let k = current_step self;
          current_time = time_line self ! k;
          xm = reshape_col (col (states self) k);
          xv = limitations p (states self) 0;
          handle_dyn = (\<lambda>xx. dynamics p xx (inputs self) k (sample_time self) current_time)
      in case (if time_type p = ''c''
               then dynamic_runner handle_dyn xv xm (sample_time self) (solver_type self)
               else handle_dyn xv) of
           Inl e \<Rightarrow> Inl e
         | Inr xp \<Rightarrow> Inr (limitations p xp 1))"

text \<open>\<open>Pp = A.dot(P).dot(A.T) + L.dot(Q).dot(L.T)\<close>.\<close>

definition predict_cov :: "mat \<Rightarrow> mat \<Rightarrow> mat \<Rightarrow> mat \<Rightarrow> mat" where
  "predict_cov a l pm qm =
     mat_add (mat_mul (mat_mul a pm) (mat_T a)) (mat_mul (mat_mul l qm) (mat_T l))"

text \<open>
  The posterior step of the EKF (lines 1074 to 1085). \<open>those y\<close> is \<open>None\<close> exactly when
  an entry of the output vector is not-a-number.
\<close>

definition ekf_posterior ::
  "linalg \<Rightarrow> plant \<Rightarrow> Nonlinear \<Rightarrow> mat \<Rightarrow> mat \<Rightarrow> mat \<Rightarrow> mat \<Rightarrow> real option list \<Rightarrow>
   error + mat \<times> mat" where
  "ekf_posterior la p self h m xp pp output_signal =
     (case those output_signal of
        Some y \<Rightarrow>
          (case np_inv la (mat_add (mat_mul (mat_mul h pp) (mat_T h))
                                   (mat_mul (mat_mul m (r_matrix p)) (mat_T m))) of
             None \<Rightarrow> Inl LinAlgError
           | Some si \<Rightarrow>
               let kg = mat_mul (mat_mul pp (mat_T h)) si;
                   xm = mat_add xp (mat_mul kg (mat_sub (reshape_col y) (mat_mul h xp)));
                   pm = mat_mul (mat_sub (eye (nrows (covariance self))) (mat_mul kg h)) pp
               in Inr (xm, pm))
      | None \<Rightarrow> Inr (xp, pp))"

text \<open>
  The first statements of both ticks (lines 1030 to 1041 and 1106 to 1116): the current
  time, the two history writes and the Jacobian call.
\<close>

definition record_and_linearise ::
  "plant \<Rightarrow> Nonlinear \<Rightarrow> vec \<Rightarrow> real option list \<Rightarrow> (error \<times> Nonlinear) + (jac \<times> Nonlinear)" where
  "record_and_linearise p self input_signal output_signal =
     (let k = current_step self in
      if \<not> k < length (time_line self) then Inl (IndexError, self)
      else
        let current_time = time_line self ! k in
        case set_col (inputs self) k input_signal of
          Inl e \<Rightarrow> Inl (e, self)
        | Inr inp \<Rightarrow>
            let s1 = self\<lparr>inputs := inp\<rparr> in
            (case set_col (outputs s1) k output_signal of
               Inl e \<Rightarrow> Inl (e, s1)
             | Inr out \<Rightarrow>
                 let s2 = s1\<lparr>outputs := out\<rparr>;
                     (j, x) = jacobians p (states s2) (inputs s2) k (sample_time s2) current_time;
                     s3 = s2\<lparr>states := x\<rparr>
                 in (case j of Inl e \<Rightarrow> Inl (e, s3) | Inr jc \<Rightarrow> Inr (jc, s3))))"

text \<open>The last statements of both ticks (lines 1088 to 1090 and 1215 to 1217).\<close>

definition store_posterior :: "Nonlinear \<Rightarrow> mat \<Rightarrow> mat \<Rightarrow> Nonlinear outcome" where
  "store_posterior self xm pm =
     (case set_col (states self) (current_step self + 1) (flatten xm) of
        Inl e \<Rightarrow> Raised e self
      | Inr x \<Rightarrow>
          Returned (self\<lparr>states := x, covariance := pm,
                         current_step := current_step self + 1\<rparr>))"

definition nextstepEKF ::
  "linalg \<Rightarrow> plant \<Rightarrow> Nonlinear \<Rightarrow> vec \<Rightarrow> real option list \<Rightarrow> Nonlinear outcome" where
  "nextstepEKF la p self input_signal output_signal =
     (case record_and_linearise p self input_signal output_signal of
        Inl (e, s) \<Rightarrow> Raised e s
      | Inr ((a, b, h, d, l, m), s) \<Rightarrow>
          (case predict_state p s of
             Inl e \<Rightarrow> Raised e s
           | Inr xp \<Rightarrow>
               (case q_matrix p of
                  None \<Rightarrow> Raised AttributeError s
                | Some qm \<Rightarrow>
                    let pp = predict_cov a l (covariance s) qm in
                    (case ekf_posterior la p s h m xp pp output_signal of
                       Inl e \<Rightarrow> Raised e s
                     | Inr (xm, pm) \<Rightarrow> store_posterior s xm pm))))"

subsection \<open>The unscented Kalman filter tick\<close>

text \<open>
  \<open>M[:, i] = V\<close> for a two-dimensional \<open>V\<close>, as in \<open>Xp[:,i] = handle_dyn(xv)\<close>: numpy
  accepts a value of one row and refuses every other shape, a column of several rows too.
\<close>

definition set_col_2d :: "mat \<Rightarrow> nat \<Rightarrow> mat \<Rightarrow> error + mat" where
  "set_col_2d M i V = (case V of [r] \<Rightarrow> set_col M i r | _ \<Rightarrow> Inl ValueError)"

text \<open>\<open>M[:, idx]\<close> for a list of column indices, and \<open>np.concatenate(..., axis=1)\<close>.\<close>

definition take_cols :: "mat \<Rightarrow> nat list \<Rightarrow> mat" where
  "take_cols M idx = map (\<lambda>r. map (\<lambda>j. r ! j) idx) M"

definition hconcat :: "mat \<Rightarrow> mat \<Rightarrow> mat" where
  "hconcat X Y = map2 (@) X Y"

definition np_diag :: "vec \<Rightarrow> mat" where
  "np_diag v = map (\<lambda>i. map (\<lambda>j. if i = j then v ! i else 0) [0..<length v]) [0..<length v]"

text \<open>
  The sigma points (lines 1124 to 1128), from the Cholesky factor \<open>ch\<close> of the covariance
  and the column \<open>xm\<close>. For a negative \<open>n_ukf + lambd\<close> numpy's root is not-a-number,
  which the model does not follow.
\<close>

definition sigma_points :: "ukf_set \<Rightarrow> mat \<Rightarrow> mat \<Rightarrow> mat" where
  "sigma_points w ch xm =
     (let dSigma = smul (sqrt (real (n_ukf w) + lambd w)) (mat_T ch);
          xmCopy = take_cols xm (replicate (length (flatten xm)) 0)
      in hconcat xm (hconcat (mat_add xmCopy dSigma) (mat_sub xmCopy dSigma)))"

text \<open>
  One round of the prediction loop (lines 1136 to 1160), on \<open>(states, Xp, xp)\<close>.
  \<open>changed_full_state\<close> is \<open>self.states\<close> itself, so the first statement writes the sigma
  point into column \<open>k\<close> of the state history. \<open>xm\<close> is a view of that column (a slice,
  reshaped), so the integrator's base point is the column as just written. An error
  comes with the state history as the round left it.
\<close>

definition ukf_predict_point ::
  "plant \<Rightarrow> Nonlinear \<Rightarrow> mat \<Rightarrow> vec \<Rightarrow> nat \<Rightarrow> mat \<Rightarrow> mat \<Rightarrow> mat \<Rightarrow>
   (error \<times> mat) + (mat \<times> mat \<times> mat)" where
  "ukf_predict_point p self sp w i x0 xp_cols0 xp =
     (let k = current_step self;
          current_time = time_line self ! k in
        (case set_col x0 k (col sp i) of
          Inl e \<Rightarrow> Inl (e, x0)
        | Inr x1 \<Rightarrow>
            let xv = limitations p x1 0;
                handle_dyn = (\<lambda>xx. dynamics p xx (inputs self) k (sample_time self) current_time);
                xm = reshape_col (col x1 k)
            in (case (if time_type p = ''c''
                      then (case dynamic_runner handle_dyn xv xm (sample_time self)
                                   (solver_type self) of
                              Inl e \<Rightarrow> Inl e
                            | Inr r \<Rightarrow> set_col xp_cols0 i (flatten r))
                      else (case handle_dyn xv of
                              Inl e \<Rightarrow> Inl e
                            | Inr r \<Rightarrow> set_col_2d xp_cols0 i r)) of
                  Inl e \<Rightarrow> Inl (e, x1)
                | Inr xp_cols1 \<Rightarrow>
                    (case set_col xp_cols1 i
                            (flatten (limitations p (reshape_col (col xp_cols1 i)) 1)) of
                       Inl e \<Rightarrow> Inl (e, x1)
                     | Inr xp_cols2 \<Rightarrow>
                         if i < length w
                         then Inr (x1, xp_cols2,
                                   mat_add xp (smul (w ! i) (reshape_col (col xp_cols2 i))))
                         else Inl (IndexError, x1)))))"

fun ukf_predict_loop ::
  "plant \<Rightarrow> Nonlinear \<Rightarrow> mat \<Rightarrow> vec \<Rightarrow> nat list \<Rightarrow> mat \<times> mat \<times> mat \<Rightarrow>
   (error \<times> mat) + (mat \<times> mat \<times> mat)" where
  "ukf_predict_loop p self sp w [] acc = Inr acc"
| "ukf_predict_loop p self sp w (i # rest) (x0, xp_cols0, xp) =
     (case ukf_predict_point p self sp w i x0 xp_cols0 xp of
        Inl e \<Rightarrow> Inl e
      | Inr acc' \<Rightarrow> ukf_predict_loop p self sp w rest acc')"

text \<open>
  One round of the measurement loop (lines 1181 to 1190), on \<open>(states, Zb, zb)\<close>: it
  writes the propagated sigma point into column \<open>k\<close> of the state history.
\<close>

definition ukf_measure_point ::
  "plant \<Rightarrow> Nonlinear \<Rightarrow> mat \<Rightarrow> vec \<Rightarrow> nat \<Rightarrow> mat \<Rightarrow> mat \<Rightarrow> mat \<Rightarrow>
   (error \<times> mat) + (mat \<times> mat \<times> mat)" where
  "ukf_measure_point p self xp_cols w i x0 zb_cols0 zb =
     (let k = current_step self;
          current_time = time_line self ! k in
        (case set_col x0 k (col xp_cols i) of
          Inl e \<Rightarrow> Inl (e, x0)
        | Inr x1 \<Rightarrow>
            (case measurements p x1 (inputs self) k (sample_time self) current_time of
               Inl e \<Rightarrow> Inl (e, x1)
             | Inr z \<Rightarrow>
                 (case set_col zb_cols0 i (flatten z) of
                    Inl e \<Rightarrow> Inl (e, x1)
                  | Inr zb_cols1 \<Rightarrow>
                      if i < length w
                      then Inr (x1, zb_cols1,
                                mat_add zb (smul (w ! i) (reshape_col (col zb_cols1 i))))
                      else Inl (IndexError, x1)))))"

fun ukf_measure_loop ::
  "plant \<Rightarrow> Nonlinear \<Rightarrow> mat \<Rightarrow> vec \<Rightarrow> nat list \<Rightarrow> mat \<times> mat \<times> mat \<Rightarrow>
   (error \<times> mat) + (mat \<times> mat \<times> mat)" where
  "ukf_measure_loop p self xp_cols w [] acc = Inr acc"
| "ukf_measure_loop p self xp_cols w (i # rest) (x0, zb_cols0, zb) =
     (case ukf_measure_point p self xp_cols w i x0 zb_cols0 zb of
        Inl e \<Rightarrow> Inl e
      | Inr acc' \<Rightarrow> ukf_measure_loop p self xp_cols w rest acc')"

text \<open>
  The prediction of the UKF (lines 1118 to 1166), on the engine after the Jacobian call:
  the state history as the loop leaves it, the propagated points \<open>Xp\<close>, the deviations
  \<open>dPp\<close>, the predicted mean \<open>xp\<close> and the predicted covariance \<open>Pp\<close>.
\<close>

definition ukf_predict ::
  "linalg \<Rightarrow> plant \<Rightarrow> Nonlinear \<Rightarrow> mat \<Rightarrow>
   (error \<times> mat) + (mat \<times> mat \<times> mat \<times> mat \<times> mat)" where
  "ukf_predict la p self l =
     (case ukf self of
        None \<Rightarrow> Inl (AttributeError, states self)
      | Some w \<Rightarrow>
          let xm = reshape_col (col (states self) (current_step self));
              pm = covariance self
          in (case np_cholesky la pm of
                None \<Rightarrow> Inl (LinAlgError, states self)
              | Some ch \<Rightarrow>
                  let sp = sigma_points w ch xm;
                      nSpoints = ncols sp
                  in (case ukf_predict_loop p self sp (arrays w (wm w)) [0..<nSpoints]
                             (states self, zeros (n_states p) nSpoints, zeros (n_states p) 1) of
                        Inl e \<Rightarrow> Inl e
                      | Inr (x, xp_cols, xp) \<Rightarrow>
                          let dPp = add_bcast xp_cols (- 1) xp in
                          (case q_matrix p of
                             None \<Rightarrow> Inl (AttributeError, x)
                           | Some qm \<Rightarrow>
                               Inr (x, xp_cols, dPp, xp,
                                    mat_add (mat_mul (mat_mul dPp (np_diag (arrays w (wc w))))
                                                     (mat_T dPp))
                                            (mat_mul (mat_mul l qm) (mat_T l)))))))"

text \<open>
  The measurement update of the UKF (lines 1175 to 1212) for an output vector \<open>y\<close> without
  a not-a-number entry: the state history as the loop leaves it, the posterior mean and
  the posterior covariance.
\<close>

definition ukf_measurement_update ::
  "linalg \<Rightarrow> plant \<Rightarrow> Nonlinear \<Rightarrow> ukf_set \<Rightarrow> mat \<Rightarrow> mat \<Rightarrow> mat \<Rightarrow> mat \<Rightarrow> mat \<Rightarrow> mat \<Rightarrow> vec \<Rightarrow>
   (error \<times> mat) + (mat \<times> mat \<times> mat)" where
  "ukf_measurement_update la p self w m x xp_cols dPp xp pp y =
     (let nSpoints = ncols xp_cols in
      (case ukf_measure_loop p self xp_cols (arrays w (wm w)) [0..<nSpoints]
              (x, zeros (n_outputs p) nSpoints, zeros (n_outputs p) 1) of
         Inl e \<Rightarrow> Inl e
       | Inr (x', zb_cols, zb) \<Rightarrow>
           let dSt = add_bcast zb_cols (- 1) zb;
               st = mat_add (mat_mul (mat_mul dSt (np_diag (arrays w (wc w)))) (mat_T dSt))
                            (mat_mul (mat_mul m (r_matrix p)) (mat_T m));
               sig = mat_mul (mat_mul dPp (np_diag (arrays w (wc w)))) (mat_T dSt)
           in (case np_inv la st of
                 None \<Rightarrow> Inl (LinAlgError, x')
               | Some si \<Rightarrow>
                   let kg = mat_mul sig si
                   in Inr (x', mat_add xp (mat_mul kg (mat_sub (reshape_col y) zb)),
                           mat_sub pp (mat_mul kg (mat_T sig))))))"

definition nextstepUKF ::
  "linalg \<Rightarrow> plant \<Rightarrow> Nonlinear \<Rightarrow> vec \<Rightarrow> real option list \<Rightarrow> Nonlinear outcome" where
  "nextstepUKF la p self input_signal output_signal =
     (case record_and_linearise p self input_signal output_signal of
        Inl (e, s) \<Rightarrow> Raised e s
      | Inr ((a, b, h, d, l, m), s) \<Rightarrow>
          (case ukf_predict la p s l of
             Inl (e, x) \<Rightarrow> Raised e (s\<lparr>states := x\<rparr>)
           | Inr (x, xp_cols, dPp, xp, pp) \<Rightarrow>
               (case those output_signal of
                  None \<Rightarrow> store_posterior (s\<lparr>states := x\<rparr>) xp pp
                | Some y \<Rightarrow>
                    (case ukf s of
                       None \<Rightarrow> Raised AttributeError (s\<lparr>states := x\<rparr>)
                     | Some w \<Rightarrow>
                         (case ukf_measurement_update la p s w m x xp_cols dPp xp pp y of
                            Inl (e, x') \<Rightarrow> Raised e (s\<lparr>states := x'\<rparr>)
                          | Inr (x', xm, pm) \<Rightarrow> store_posterior (s\<lparr>states := x'\<rparr>) xm pm)))))"

text \<open>\<open>estimate\<close> and \<open>reset\<close> (lines 1017 to 1022 and 1246).\<close>

definition estimate ::
  "linalg \<Rightarrow> plant \<Rightarrow> Nonlinear \<Rightarrow> vec \<Rightarrow> real option list \<Rightarrow> Nonlinear outcome" where
  "estimate la p self input_signal output_signal =
     (if estimator self = False then Returned self
      else if est_approach self = Some ''ekf''
           then nextstepEKF la p self input_signal output_signal
      else if est_approach self = Some ''ukf''
           then nextstepUKF la p self input_signal output_signal
      else Returned self)"

definition reset :: "Nonlinear \<Rightarrow> Nonlinear" where
  "reset self = self\<lparr>current_step := 0\<rparr>"

section \<open>Scope\<close>

text \<open>
  A scope made by \<open>Scope(time_line = ..., n_signals = ..., initial = ...)\<close> with a
  two-dimensional \<open>initial\<close>, which is how \<open>append\<close> and \<open>select\<close> make their results.
  The constructor decides by the sum of the shape of \<open>initial\<close>. An array without rows
  is the empty list, whatever its number of columns.
\<close>

record Scope =
  sc_time_line :: vec
  n_signals :: nat
  signals :: mat
  sc_current_step :: nat
  sc_n :: nat

text \<open>
  \<open>initial_condition * signals\<close> for the column \<open>c\<close> of \<open>s\<close> entries and the all-ones
  array of \<open>n\<close> rows and \<open>t\<close> columns, by numpy's broadcasting.
\<close>

definition mul_bcast_ones :: "vec \<Rightarrow> nat \<Rightarrow> nat \<Rightarrow> error + mat" where
  "mul_bcast_ones c n t =
     (if length c = n \<or> n = 1 then Inr (map (\<lambda>x. replicate t x) c)
      else (case c of [x] \<Rightarrow> Inr (replicate n (replicate t x)) | _ \<Rightarrow> Inl ValueError))"

definition Scope_init :: "vec \<Rightarrow> nat \<Rightarrow> mat \<Rightarrow> error + Scope" where
  "Scope_init tline n_sig initial_condition =
     (let t = length tline;
          self = \<lparr>sc_time_line = tline, n_signals = n_sig, signals = zeros n_sig t,
                  sc_current_step = 0, sc_n = t\<rparr>;
          inish_sum = nrows initial_condition + ncols initial_condition
      in if inish_sum = n_sig \<or> inish_sum = n_sig + 1
         then (case mul_bcast_ones (flatten initial_condition) n_sig t of
                 Inl e \<Rightarrow> Inl e
               | Inr sg \<Rightarrow> Inr (self\<lparr>signals := sg\<rparr>))
         else if inish_sum \<noteq> 1 \<and> inish_sum \<noteq> 2
         then (if (nrows initial_condition = n_sig \<and> ncols initial_condition = t)
                  \<or> t = 1 \<or> t = ncols initial_condition
               then Inr (self\<lparr>signals := initial_condition,
                               n_signals := nrows initial_condition\<rparr>)
               else Inl ValueError)
         else Inr self)"

text \<open>\<open>M[select]\<close> for a list of row indices, and \<open>np.concatenate(..., axis=0)\<close>.\<close>

definition take_rows :: "mat \<Rightarrow> nat list \<Rightarrow> error + mat" where
  "take_rows M select =
     (if list_all (\<lambda>i. i < nrows M) select then Inr (map (\<lambda>i. M ! i) select)
      else Inl IndexError)"

definition vconcat :: "mat \<Rightarrow> mat \<Rightarrow> error + mat" where
  "vconcat X Y = (if X \<noteq> [] \<and> Y \<noteq> [] \<and> ncols X \<noteq> ncols Y then Inl ValueError else Inr (X @ Y))"

text \<open>
  \<open>Scope.append\<close> for \<open>other\<close> a single scope (lines 285 to 291 and 313). \<open>select\<close> is
  \<open>None\<close> for the default value \<open>False\<close>, and a list of row indices otherwise: a Python
  list never equals \<open>False\<close>.
\<close>

definition Scope_append :: "Scope \<Rightarrow> Scope \<Rightarrow> nat list option \<Rightarrow> error + Scope" where
  "Scope_append self other select =
     (case select of
        None \<Rightarrow>
          (case vconcat (signals self) (signals other) of
             Inl e \<Rightarrow> Inl e
           | Inr initial \<Rightarrow>
               Scope_init (sc_time_line self) (n_signals self + n_signals other) initial)
      | Some sel \<Rightarrow>
          (case take_rows (signals self) sel of
             Inl e \<Rightarrow> Inl e
           | Inr x \<Rightarrow>
               (case take_rows (signals other) sel of
                  Inl e \<Rightarrow> Inl e
                | Inr y \<Rightarrow>
                    (case vconcat x y of
                       Inl e \<Rightarrow> Inl e
                     | Inr initial \<Rightarrow>
                         Scope_init (sc_time_line self) (2 * length sel) initial))))"

definition Scope_select :: "Scope \<Rightarrow> nat list \<Rightarrow> error + Scope" where
  "Scope_select self rows_to_select =
     (case take_rows (signals self) rows_to_select of
        Inl e \<Rightarrow> Inl e
      | Inr sg \<Rightarrow> Scope_init (sc_time_line self) (length rows_to_select) sg)"

section \<open>Plants of the repository\<close>

subsection \<open>Lorenz\<close>

text \<open>A read \<open>x[i, k]\<close> outside the array raises \<open>IndexError\<close>.\<close>

definition Lorenz_dynamics :: "mat \<Rightarrow> mat \<Rightarrow> nat \<Rightarrow> real \<Rightarrow> real \<Rightarrow> error + mat" where
  "Lorenz_dynamics x input_signal k st t =
     (let mp_sigma = 10; mp_ro = 28; mp_beta = 8 / 3 in
      if 2 < nrows x \<and> k < ncols x \<and> 0 < nrows input_signal \<and> k < ncols input_signal
      then Inr [[mp_sigma * x ! 1 ! k - mp_sigma * x ! 0 ! k + input_signal ! 0 ! k],
                [mp_ro * x ! 0 ! k - x ! 0 ! k * x ! 2 ! k - x ! 1 ! k],
                [x ! 0 ! k * x ! 1 ! k - mp_beta * x ! 2 ! k]]
      else Inl IndexError)"

definition Lorenz_measurements :: "mat \<Rightarrow> mat \<Rightarrow> nat \<Rightarrow> real \<Rightarrow> real \<Rightarrow> error + mat" where
  "Lorenz_measurements x input_signal k st t =
     (if 1 < nrows x \<and> k < ncols x then Inr [[x ! 0 ! k], [x ! 1 ! k]] else Inl IndexError)"

text \<open>
  \<open>Lorenz._jacobians\<close> (lines 323 to 346). The body binds the local names \<open>A\<close>, \<open>L\<close>,
  \<open>H\<close> and \<open>M\<close>; the return statement then reads \<open>A, B, H, D, L, M\<close> in this order. A
  name that the body has not bound is looked up in the module, where the sources at hand
  bind classes and libraries and no \<open>B\<close> or \<open>D\<close>, so reading it raises \<open>NameError\<close>. The
  model keeps the bindings as a map from names and reads the six names from it.
\<close>

definition Lorenz_jacobians ::
  "mat \<Rightarrow> mat \<Rightarrow> nat \<Rightarrow> real \<Rightarrow> real \<Rightarrow> (error + jac) \<times> mat" where
  "Lorenz_jacobians x input_signal k st t =
     (let mp_sigma = 10; mp_ro = 28; mp_beta = 8 / 3 in
      if \<not> (2 < nrows x \<and> k < ncols x) then (Inl IndexError, x)
      else
        let names = [''A'' \<mapsto> [[- mp_sigma, mp_sigma, 0],
                                [mp_ro - x ! 2 ! k, - 1, - x ! 0 ! k],
                                [x ! 1 ! k, x ! 0 ! k, - mp_beta]],
                     ''L'' \<mapsto> eye 3,
                     ''H'' \<mapsto> [[1, 0, 0], [0, 1, 0]],
                     ''M'' \<mapsto> eye 2]
        in (case (names ''A'', names ''B'', names ''H'', names ''D'', names ''L'', names ''M'') of
              (Some a, Some b, Some h, Some d, Some l, Some m) \<Rightarrow> (Inr (a, b, h, d, l, m), x)
            | _ \<Rightarrow> (Inl NameError, x)))"

definition Lorenz :: plant where
  "Lorenz = \<lparr>n_states = 3, n_inputs = 1, n_outputs = 2, time_type = ''c'',
             class_solver_type = Euler, initial_states = [1, 1, 1],
             class_covariance = smul 1000 (eye 3), q_matrix = Some (eye 3),
             r_matrix = eye 2, kappa = 80, alpha = 2 / 10, num_states = None,
             dynamics = Lorenz_dynamics, measurements = Lorenz_measurements,
             limitations = (\<lambda>x mode. x), jacobians = Lorenz_jacobians\<rparr>"

subsection \<open>QuadrupleTank\<close>

text \<open>
  The class defines \<open>q_atrix\<close>, so it has no \<open>q_matrix\<close>. \<open>_jacobians\<close> begins with
  \<open>x[:, k] = np.maximum(x[:, k], epssilon)\<close>, a write into the array it was given. For a
  negative level numpy's root is not-a-number, which the model does not follow.
\<close>

definition QuadrupleTank_dynamics :: "mat \<Rightarrow> mat \<Rightarrow> nat \<Rightarrow> real \<Rightarrow> real \<Rightarrow> error + mat" where
  "QuadrupleTank_dynamics x input_signal k st t =
     (let mp_a1 = 71 / 1000; mp_a2 = 57 / 1000; mp_a3 = 71 / 1000; mp_a4 = 57 / 1000;
          mp_A1 = 28; mp_A2 = 32; mp_A3 = 28; mp_A4 = 32; mp_g = 981;
          mp_k1 = 333 / 100; mp_k2 = 335 / 100; mp_ga1 = 43 / 100; mp_ga2 = 34 / 100 in
      if 3 < nrows x \<and> k < ncols x \<and> 1 < nrows input_signal \<and> k < ncols input_signal
      then Inr [[- mp_a1 / mp_A1 * sqrt (2 * mp_g * x ! 0 ! k)
                   + mp_a3 / mp_A1 * sqrt (2 * mp_g * x ! 2 ! k)
                   + mp_ga1 * mp_k1 / mp_A1 * input_signal ! 0 ! k],
                [- mp_a2 / mp_A2 * sqrt (2 * mp_g * x ! 1 ! k)
                   + mp_a4 / mp_A2 * sqrt (2 * mp_g * x ! 3 ! k)
                   + mp_ga2 * mp_k2 / mp_A2 * input_signal ! 1 ! k],
                [- mp_a3 / mp_A3 * sqrt (2 * mp_g * x ! 2 ! k)
                   + (1 - mp_ga2) * mp_k2 / mp_A3 * input_signal ! 1 ! k],
                [- mp_a4 / mp_A4 * sqrt (2 * mp_g * x ! 3 ! k)
                   + (1 - mp_ga1) * mp_k1 / mp_A4 * input_signal ! 0 ! k]]
      else Inl IndexError)"

definition QuadrupleTank_measurements ::
  "mat \<Rightarrow> mat \<Rightarrow> nat \<Rightarrow> real \<Rightarrow> real \<Rightarrow> error + mat" where
  "QuadrupleTank_measurements x input_signal k st t =
     (let mp_kc = 1 / 2 in
      if 1 < nrows x \<and> k < ncols x then Inr [[mp_kc * x ! 0 ! k], [mp_kc * x ! 1 ! k]]
      else Inl IndexError)"

definition QuadrupleTank_limitations :: "mat \<Rightarrow> nat \<Rightarrow> mat" where
  "QuadrupleTank_limitations x mode =
     (if mode = 0 then x else if mode = 1 then map (map (\<lambda>v. max v 0)) x else x)"

definition QuadrupleTank_jacobians ::
  "mat \<Rightarrow> mat \<Rightarrow> nat \<Rightarrow> real \<Rightarrow> real \<Rightarrow> (error + jac) \<times> mat" where
  "QuadrupleTank_jacobians x input_signal k st t =
     (let mp_a1 = 71 / 1000; mp_a2 = 57 / 1000; mp_a3 = 71 / 1000; mp_a4 = 57 / 1000;
          mp_A1 = 28; mp_A2 = 32; mp_A3 = 28; mp_A4 = 32; mp_g = 981;
          mp_k1 = 333 / 100; mp_k2 = 335 / 100; mp_ga1 = 43 / 100; mp_ga2 = 34 / 100;
          mp_kc = 1 / 2;
          epssilon = 1 / 1000 in
      (case set_col x k (map (\<lambda>v. max v epssilon) (col x k)) of
         Inl e \<Rightarrow> (Inl e, x)
       | Inr x1 \<Rightarrow>
           if \<not> 3 < nrows x1 then (Inl IndexError, x1)
           else
             let a = [[- ((mp_a1 / mp_A1) * sqrt (2 * mp_g)) / (2 * sqrt (x1 ! 0 ! k)), 0,
                       ((mp_a3 / mp_A1) * sqrt (2 * mp_g)) / (2 * sqrt (x1 ! 2 ! k)), 0],
                      [0, - ((mp_a2 / mp_A2) * sqrt (2 * mp_g)) / (2 * sqrt (x1 ! 1 ! k)),
                       0, ((mp_a4 / mp_A2) * sqrt (2 * mp_g)) / (2 * sqrt (x1 ! 3 ! k))],
                      [0, 0, - ((mp_a3 / mp_A3) * sqrt (2 * mp_g)) / (2 * sqrt (x1 ! 2 ! k)), 0],
                      [0, 0, 0, - ((mp_a4 / mp_A4) * sqrt (2 * mp_g)) / (2 * sqrt (x1 ! 3 ! k))]];
                 b = [[mp_ga1 * mp_k1 / mp_A1, 0],
                      [0, mp_ga2 * mp_k2 / mp_A2],
                      [0, (1 - mp_ga2) * mp_k2 / mp_A3],
                      [(1 - mp_ga1) * mp_k1 / mp_A4, 0]];
                 h = [[mp_kc, 0, 0, 0], [0, mp_kc, 0, 0]];
                 d = zeros 2 2;
                 l = eye 4;
                 m = eye 2
             in (Inr (a, b, h, d, l, m), x1)))"

definition QuadrupleTank :: plant where
  "QuadrupleTank = \<lparr>n_states = 4, n_inputs = 2, n_outputs = 2, time_type = ''c'',
             class_solver_type = Euler, initial_states = [0, 0, 0, 0],
             class_covariance = smul 1000 (eye 4), q_matrix = None,
             r_matrix = eye 2, kappa = 80, alpha = 2 / 10, num_states = None,
             dynamics = QuadrupleTank_dynamics, measurements = QuadrupleTank_measurements,
             limitations = QuadrupleTank_limitations, jacobians = QuadrupleTank_jacobians\<rparr>"

section \<open>A linear plant, a driver and one-by-one linear algebra\<close>

text \<open>
  The plant of claim C2, written against the plant contract: discrete time, dynamics
  \<open>A x[:, k] + B u[:, k]\<close>, measurement \<open>H x[:, k]\<close>, a limitation function that
  returns its argument, and constant Jacobians with \<open>L\<close> and \<open>M\<close> the identity. It
  defines \<open>num_states\<close> as well, which the UKF constructor reads.
\<close>

definition linear_plant ::
  "mat \<Rightarrow> mat \<Rightarrow> mat \<Rightarrow> mat \<Rightarrow> mat \<Rightarrow> mat \<Rightarrow> mat \<Rightarrow> vec \<Rightarrow> plant" where
  "linear_plant a b h d qm rm p0 x0 =
     \<lparr>n_states = nrows a, n_inputs = ncols b, n_outputs = nrows h, time_type = ''d'',
      class_solver_type = Euler, initial_states = x0, class_covariance = p0,
      q_matrix = Some qm, r_matrix = rm, kappa = 0, alpha = 1, num_states = Some (nrows a),
      dynamics = (\<lambda>x u k st t.
        if k < ncols x \<and> k < ncols u
        then Inr (mat_add (mat_mul a (reshape_col (col x k))) (mat_mul b (reshape_col (col u k))))
        else Inl IndexError),
      measurements = (\<lambda>x u k st t.
        if k < ncols x then Inr (mat_mul h (reshape_col (col x k))) else Inl IndexError),
      limitations = (\<lambda>x mode. x),
      jacobians = (\<lambda>x u k st t. (Inr (a, b, h, d, eye (nrows a), eye (nrows h)), x))\<rparr>"

text \<open>
  The driver loop: one call per tick, until a call raises. Each run lists the posterior
  state and covariance after every tick.
\<close>

fun ekf_run ::
  "linalg \<Rightarrow> plant \<Rightarrow> Nonlinear \<Rightarrow> (vec \<times> real option list) list \<Rightarrow> (mat \<times> mat) list" where
  "ekf_run la p self [] = []"
| "ekf_run la p self ((u, y) # rest) =
     (case estimate la p self u y of
        Raised e s \<Rightarrow> []
      | Returned s \<Rightarrow>
          (reshape_col (col (states s) (current_step s)), covariance s) # ekf_run la p s rest)"

fun lkf_run ::
  "linalg \<Rightarrow> LinearKalmanFilter \<Rightarrow> (vec \<times> vec) list \<Rightarrow> (mat \<times> mat) list" where
  "lkf_run la self [] = []"
| "lkf_run la self ((u, y) # rest) =
     (case lkf_call la u y self of
        Raised e f \<Rightarrow> []
      | Returned f \<Rightarrow> (x_ps (attrs f), P_ps (attrs f)) # lkf_run la f rest)"

fun lkf_calls :: "linalg \<Rightarrow> LinearKalmanFilter \<Rightarrow> (vec \<times> vec) list \<Rightarrow> LinearKalmanFilter" where
  "lkf_calls la self [] = self"
| "lkf_calls la self ((u, y) # rest) =
     (case lkf_call la u y self of
        Raised e f \<Rightarrow> lkf_calls la f rest
      | Returned f \<Rightarrow> lkf_calls la f rest)"

text \<open>
  The inverse and the Cholesky factor of a one-by-one array, for evaluating the filters
  on scalar systems.
\<close>

definition inv_1x1 :: "mat \<Rightarrow> mat option" where
  "inv_1x1 M = (case M of [[x]] \<Rightarrow> if x = 0 then None else Some [[1 / x]] | _ \<Rightarrow> None)"

definition cholesky_1x1 :: "mat \<Rightarrow> mat option" where
  "cholesky_1x1 M = (case M of [[x]] \<Rightarrow> if 0 < x then Some [[sqrt x]] else None | _ \<Rightarrow> None)"

definition linalg_1x1 :: linalg where
  "linalg_1x1 = \<lparr>np_inv = inv_1x1, np_cholesky = cholesky_1x1\<rparr>"

text \<open>
  A scalar instance of the linear plant, \<open>x' = x + u\<close> and \<open>y = x\<close> with unit noise
  covariances, the keyword arguments that make an estimator, and the two estimators that
  \<open>Nonlinear.__init__\<close> builds for it over the time line \<open>0, 1, 2\<close>.
\<close>

definition scalar_plant :: plant where
  "scalar_plant = linear_plant [[1]] [[1]] [[1]] [[0]] [[1]] [[1]] [[1]] [0]"

definition ekf_kwargs :: nl_kwargs where
  "ekf_kwargs = \<lparr>kw_initial = None, kw_approach = None, kw_solver = None,
                  kw_estimator = Some True\<rparr>"

definition ukf_kwargs :: nl_kwargs where
  "ukf_kwargs = \<lparr>kw_initial = None, kw_approach = Some ''ukf'', kw_solver = None,
                  kw_estimator = Some True\<rparr>"

definition scalar_ekf :: Nonlinear where
  "scalar_ekf = \<lparr>time_line = [0, 1, 2], sample_time = 1, n_steps = 3,
                  solver_type = Euler, current_step = 0, inputs = [[0, 0, 0]],
                  outputs = [[Some 0, Some 0, Some 0]],
                  states = [[0, 0, 0, 0]], estimator = True,
                  est_approach = Some ''ekf'', covariance = [[1]], ukf = None\<rparr>"

definition scalar_ukf :: Nonlinear where
  "scalar_ukf = scalar_ekf\<lparr>est_approach := Some ''ukf'',
      ukf := Some \<lparr>n_ukf = 1, lambd = 0, betta = 2, wm = 0, wc = 0,
                   arrays = (\<lambda>_. [])(0 := [5 / 2, 1 / 2, 1 / 2])\<rparr>\<rparr>"

text \<open>
  The EKF estimator that \<open>Nonlinear.__init__\<close> builds for \<open>QuadrupleTank\<close> over the time
  line \<open>0, 1, 2\<close>.
\<close>

definition qt_ekf :: Nonlinear where
  "qt_ekf = \<lparr>time_line = [0, 1, 2], sample_time = 1, n_steps = 3, solver_type = Euler,
              current_step = 0, inputs = [[0, 0, 0], [0, 0, 0]],
              outputs = [[Some 0, Some 0, Some 0], [Some 0, Some 0, Some 0]],
              states = [[0, 0, 0, 0], [0, 0, 0, 0], [0, 0, 0, 0], [0, 0, 0, 0]],
              estimator = True, est_approach = Some ''ekf'',
              covariance = smul 1000 (eye 4), ukf = None\<rparr>"

text \<open>Two scopes of two signals each over the time line \<open>0, 1\<close>.\<close>

definition scope_a :: Scope where
  "scope_a = \<lparr>sc_time_line = [0, 1], n_signals = 2, signals = [[1, 2], [3, 4]],
               sc_current_step = 0, sc_n = 2\<rparr>"

definition scope_b :: Scope where
  "scope_b = \<lparr>sc_time_line = [0, 1], n_signals = 2, signals = [[5, 6], [7, 8]],
               sc_current_step = 0, sc_n = 2\<rparr>"

text \<open>
  An EKF engine and a linear filter in step: the engine is an EKF estimator over a time
  line of \<open>t\<close> instants with histories of the plant's dimensions, the filter has the
  plant's matrices and noise covariances, and the filter's posterior pair is the engine's
  state at the current step and covariance.
\<close>

definition ekf_matches_lkf ::
  "mat \<Rightarrow> mat \<Rightarrow> mat \<Rightarrow> mat \<Rightarrow> mat \<Rightarrow> nat \<Rightarrow> Nonlinear \<Rightarrow> LinearKalmanFilter \<Rightarrow> bool" where
  "ekf_matches_lkf a b h qm rm t s f =
     (estimator s \<and> est_approach s = Some ''ekf'' \<and> length (time_line s) = t
      \<and> current_step s \<le> t
      \<and> rect (nrows a) (t + 1) (states s) \<and> rect (ncols b) t (inputs s)
      \<and> rect (nrows h) t (outputs s) \<and> nrows (covariance s) = nrows a
      \<and> lkf_A (attrs f) = a \<and> lkf_B (attrs f) = b \<and> lkf_C (attrs f) = h
      \<and> lkf_Q (attrs f) = qm \<and> lkf_R (attrs f) = rm \<and> lkf_n_states (attrs f) = nrows a
      \<and> x_ps (attrs f) = reshape_col (col (states s) (current_step s))
      \<and> P_ps (attrs f) = covariance s)"


section \<open>Components that keep a backup\<close>

text \<open>
  \<open>LtiGroup\<close>, \<open>NeuroIdentifier\<close> and \<open>NonlinearGroup\<close> end their constructors, as
  \<open>LinearKalmanFilter\<close> does, with \<open>self.backup = cop.copy(self.__dict__)\<close>, and their
  \<open>reset\<close> methods have the same four statements. An object of these classes is its
  attributes and the \<open>backup\<close> attribute. The copy is shallow; the methods below bind new
  arrays to the attributes and write only into arrays that they have made themselves, so
  the arrays of the backup are never written.
\<close>

record 'a component =
  comp_attrs :: 'a
  comp_backup :: 'a

text \<open>
  The object that a constructor leaves when \<open>f\<close> are the attribute values it has computed
  by its last statement, \<open>self.backup = cop.copy(self.__dict__)\<close>.
\<close>

definition constructed :: "'a \<Rightarrow> 'a component" where
  "constructed f = \<lparr>comp_attrs = f, comp_backup = f\<rparr>"

text \<open>
  \<open>X + N\<close> by numpy's broadcasting, for a noise \<open>N\<close> that is a single number (the default
  \<open>0\<close> is \<open>[[0]]\<close>), a column of one entry for each row of \<open>X\<close>, or an array of the shape
  of \<open>X\<close>.
\<close>

definition np_add :: "mat \<Rightarrow> mat \<Rightarrow> mat" where
  "np_add X N =
     (case N of
        [[c]] \<Rightarrow> map (map (\<lambda>x. x + c)) X
      | _ \<Rightarrow> map2 (\<lambda>r v. case v of [d] \<Rightarrow> map (\<lambda>x. x + d) r | _ \<Rightarrow> map2 (+) r v) X N)"

text \<open>\<open>M.any() != 0\<close>: some entry is nonzero.\<close>

definition np_any :: "mat \<Rightarrow> bool" where
  "np_any M = list_ex (list_ex (\<lambda>x. x \<noteq> 0)) M"

text \<open>\<open>np.array(v).reshape((r, c))\<close> of a flat \<open>v\<close>, row by row.\<close>

definition reshape_2d :: "vec \<Rightarrow> nat \<Rightarrow> nat \<Rightarrow> error + mat" where
  "reshape_2d v r c =
     (if length v = r * c then Inr (map (\<lambda>i. take c (drop (i * c) v)) [0..<r])
      else Inl ValueError)"

subsection \<open>LtiGroup\<close>

text \<open>
  Every attribute that \<open>LtiGroup.__init__\<close> sets. The three-dimensional \<open>inputs\<close> of shape
  \<open>(n_inputs, number_ltis, delay + 1)\<close> is the list of its \<open>delay + 1\<close> slices
  \<open>inputs[:, :, j]\<close>.
\<close>

record lti_fields = LtiGroup +
  lti_inserted_system :: "mat \<times> mat \<times> mat \<times> mat"
  lti_system :: Structure
  lti_name :: string
  lti_newest :: bool
  lti_auto_inject_noise :: bool
  lti_number_ltis :: nat
  lti_sample_time :: real
  lti_delay :: nat
  lti_inputs :: "mat list"
  lti_outputs :: mat
  lti_states :: mat
  lti_Q_ch :: mat
  lti_R_ch :: mat

text \<open>
  \<open>LtiGroup.__call__(input_signal, x_noise, y_noise)\<close>. \<open>randn_x\<close> and \<open>randn_y\<close> are the
  draws \<open>np.random.randn(n_states, 1)\<close> and \<open>np.random.randn(n_outputs, 1)\<close> of this call.
  \<open>np.roll(inputs, -1, axis=2)\<close> makes a new array with the first slice moved to the end;
  the reshape of the input raises \<open>ValueError\<close> on a wrong size, after \<open>inputs\<close> has been
  bound to the rolled array. \<open>x\<close> and \<open>y\<close> are new arrays, which \<open>+=\<close> then writes.
\<close>

definition LtiGroup_call ::
  "vec \<Rightarrow> mat \<Rightarrow> mat \<Rightarrow> mat \<Rightarrow> mat \<Rightarrow> lti_fields component
     \<Rightarrow> lti_fields component outcome" where
  "LtiGroup_call input_signal x_noise y_noise randn_x randn_y self =
     (let f0 = comp_attrs self;
          f1 = f0\<lparr>lti_inputs := rotate1 (lti_inputs f0)\<rparr>
      in case reshape_2d input_signal (lti_n_inputs f1) (lti_number_ltis f1) of
           Inl e \<Rightarrow> Raised e (self\<lparr>comp_attrs := f1\<rparr>)
         | Inr u \<Rightarrow>
             let f2 = f1\<lparr>lti_inputs := (lti_inputs f1)[length (lti_inputs f1) - 1 := u]\<rparr>;
                 u0 = lti_inputs f2 ! 0;
                 x0 = mat_add (mat_mul (lti_A f2) (lti_states f2)) (mat_mul (lti_B f2) u0);
                 x_noise1 = (if lti_auto_inject_noise f2 \<and> np_any (lti_Q f2)
                             then mat_mul (lti_Q_ch f2) randn_x else x_noise);
                 x = np_add x0 x_noise1;
                 y0 = mat_add (mat_mul (lti_C f2) (if lti_newest f2 then x else lti_states f2))
                              (mat_mul (lti_D f2) u0);
                 y_noise1 = (if lti_auto_inject_noise f2 \<and> np_any (lti_R f2)
                             then mat_mul (lti_R_ch f2) randn_y else y_noise);
                 y = np_add y0 y_noise1
             in Returned (self\<lparr>comp_attrs := f2\<lparr>lti_states := x, lti_outputs := y\<rparr>\<rparr>))"

text \<open>\<open>LtiGroup.reset\<close>: the attributes become the backup, which is copied anew.\<close>

definition LtiGroup_reset :: "lti_fields component \<Rightarrow> lti_fields component" where
  "LtiGroup_reset self =
     (let temp_1 = comp_backup self in \<lparr>comp_attrs = temp_1, comp_backup = temp_1\<rparr>)"

text \<open>
  A sequence of calls, each with its arguments and its two random draws. A call that
  raises leaves the object as it was at the raise, and the next call goes on from there.
\<close>

fun LtiGroup_calls ::
  "lti_fields component \<Rightarrow> (vec \<times> mat \<times> mat \<times> mat \<times> mat) list \<Rightarrow> lti_fields component" where
  "LtiGroup_calls self [] = self"
| "LtiGroup_calls self ((u, xn, yn, rx, ry) # rest) =
     (case LtiGroup_call u xn yn rx ry self of
        Raised e f \<Rightarrow> LtiGroup_calls f rest
      | Returned f \<Rightarrow> LtiGroup_calls f rest)"

subsection \<open>NeuroIdentifier\<close>

text \<open>
  \<open>Clib.sigmoid\<close> and \<open>Clib.d_sigmoid\<close> belong to \<open>core/lib/core_library.py\<close>, which is not
  among the sources: they are parameters of the model.
\<close>

record clib =
  sigmoid :: "mat \<Rightarrow> mat"
  d_sigmoid :: "mat \<Rightarrow> mat"

text \<open>
  Every attribute that \<open>NeuroIdentifier.__init__\<close> sets; \<open>W\<close> and \<open>V\<close> are drawn at random
  there. \<open>g\<close> is the input matrix function of the inserted system.
\<close>

record nid_fields =
  nid_g :: "mat \<Rightarrow> mat"
  nid_sample_time :: real
  nid_n_states :: nat
  nid_n_inputs :: nat
  nid_name :: string
  nid_solver_type :: solver
  nid_L :: nat
  nid_w_m :: real
  nid_eps :: real
  nid_k :: real
  nid_alpha :: real
  nid_gamma :: real
  nid_beta :: real
  nid_pi_v :: mat
  nid_pi_w :: mat
  nid_act_f :: string
  nid_dist_c :: bool
  nid_x_h :: mat
  nid_dx_h :: mat
  nid_z :: mat
  nid_W :: mat
  nid_V :: mat
  nid_x_tilde_0 :: mat

definition np_sign :: "mat \<Rightarrow> mat" where
  "np_sign M = map (map sgn) M"

definition sig_value :: "clib \<Rightarrow> bool \<Rightarrow> mat \<Rightarrow> mat \<Rightarrow> mat" where
  "sig_value cl dist_c xx v =
     (if dist_c then reshape_col (flatten (sigmoid cl (mat_mul (mat_T v) xx)) @ [1])
      else reshape_col (flatten (sigmoid cl (mat_mul (mat_T v) xx))))"

text \<open>
  \<open>NeuroIdentifier.__call__(inputs, states)\<close>. The four integrations read the attributes
  as the call found them; the five assignments at the end bind the new arrays.
\<close>

definition NeuroIdentifier_call ::
  "clib \<Rightarrow> vec \<Rightarrow> vec \<Rightarrow> nid_fields component \<Rightarrow> nid_fields component outcome" where
  "NeuroIdentifier_call cl inputs_arg states_arg self =
     (let f = comp_attrs self;
          inputs1 = reshape_col inputs_arg;
          states1 = reshape_col states_arg;
          handle_x = (\<lambda>xx. Inr
            (mat_add
              (mat_sub
                (mat_add
                  (mat_add (mat_mul (mat_T (nid_W f)) (sig_value cl (nid_dist_c f) xx (nid_V f)))
                           (mat_mul (nid_g f states1) inputs1))
                  (smul (nid_k f) (mat_sub states1 xx)))
                (smul (nid_k f) (nid_x_tilde_0 f)))
              (nid_z f)));
          handle_z = (\<lambda>zz. Inr
            (mat_add (smul (nid_k f * nid_alpha f + nid_gamma f) (mat_sub states1 (nid_x_h f)))
                     (smul (nid_beta f) (np_sign (mat_sub states1 (nid_x_h f))))));
          grad_sigma =
            (if nid_dist_c f
             then np_diag (flatten (d_sigmoid cl (mat_mul (mat_T (nid_V f)) (nid_x_h f))))
                    @ zeros 1 (nid_L f)
             else np_diag (flatten (d_sigmoid cl (mat_mul (mat_T (nid_V f)) (nid_x_h f)))));
          W_free = mat_mul (mat_mul (mat_mul grad_sigma (mat_T (nid_V f))) (nid_dx_h f))
                           (mat_T (mat_sub states1 (nid_x_h f)));
          handle_W = (\<lambda>WW. Inr (mat_mul (nid_pi_w f) W_free));
          V_free = mat_mul (mat_mul (mat_mul (nid_dx_h f) (mat_T (mat_sub states1 (nid_x_h f))))
                                    (mat_T (nid_W f)))
                           grad_sigma;
          handle_V = (\<lambda>VV. Inr (mat_mul (nid_pi_v f) V_free))
      in case dynamic_runner handle_x (nid_x_h f) (nid_x_h f) (nid_sample_time f)
                (nid_solver_type f) of
           Inl e \<Rightarrow> Raised e self
         | Inr x_n \<Rightarrow>
        (case handle_x (nid_x_h f) of
           Inl e \<Rightarrow> Raised e self
         | Inr dx_n \<Rightarrow>
        (case dynamic_runner handle_z (nid_z f) (nid_z f) (nid_sample_time f)
                (nid_solver_type f) of
           Inl e \<Rightarrow> Raised e self
         | Inr z_n \<Rightarrow>
        (case dynamic_runner handle_W (nid_W f) (nid_W f) (nid_sample_time f)
                (nid_solver_type f) of
           Inl e \<Rightarrow> Raised e self
         | Inr W_n \<Rightarrow>
        (case dynamic_runner handle_V (nid_V f) (nid_V f) (nid_sample_time f)
                (nid_solver_type f) of
           Inl e \<Rightarrow> Raised e self
         | Inr V_n \<Rightarrow>
             Returned (self\<lparr>comp_attrs := f\<lparr>nid_x_h := x_n, nid_dx_h := dx_n, nid_z := z_n,
                                             nid_W := W_n, nid_V := V_n\<rparr>\<rparr>))))))"

text \<open>\<open>NeuroIdentifier.reset\<close>: the attributes become the backup, which is copied anew.\<close>

definition NeuroIdentifier_reset :: "nid_fields component \<Rightarrow> nid_fields component" where
  "NeuroIdentifier_reset self =
     (let temp_1 = comp_backup self in \<lparr>comp_attrs = temp_1, comp_backup = temp_1\<rparr>)"

fun NeuroIdentifier_calls ::
  "clib \<Rightarrow> nid_fields component \<Rightarrow> (vec \<times> vec) list \<Rightarrow> nid_fields component" where
  "NeuroIdentifier_calls cl self [] = self"
| "NeuroIdentifier_calls cl self ((u, x) # rest) =
     (case NeuroIdentifier_call cl u x self of
        Raised e f \<Rightarrow> NeuroIdentifier_calls cl f rest
      | Returned f \<Rightarrow> NeuroIdentifier_calls cl f rest)"

subsection \<open>NonlinearGroup\<close>

text \<open>
  What \<open>NonlinearGroup\<close> takes from the model class it is mixed with: the time type and
  the four methods, each a function of its arguments that writes into none of them. The
  sources have no such class.
\<close>

record group_plant =
  gp_time_type :: string
  gp_dynamics :: "mat \<Rightarrow> mat \<Rightarrow> mat \<Rightarrow> error + mat"
  gp_measurements :: "mat \<Rightarrow> mat \<Rightarrow> mat \<Rightarrow> error + mat"
  gp_limitations :: "mat \<Rightarrow> nat \<Rightarrow> mat"
  gp_synapses :: "mat \<Rightarrow> nat list \<Rightarrow> nat list \<Rightarrow> mat option \<Rightarrow> error + mat"

text \<open>
  Every attribute that \<open>NonlinearGroup.__init__\<close> sets. \<open>inputs\<close> is the list of its
  \<open>delay + 1\<close> slices, as for \<open>LtiGroup\<close>.
\<close>

record grp_fields =
  grp_enable_synapses :: bool
  grp_delay :: nat
  grp_pre :: "nat list"
  grp_post :: "nat list"
  grp_sample_time :: real
  grp_n_neurons :: nat
  grp_solver_type :: solver
  grp_initial_states :: mat
  grp_synapses_current :: mat
  grp_inputs :: "mat list"
  grp_outputs :: mat
  grp_states :: mat

text \<open>
  \<open>NonlinearGroup.__call__(input_signal, external_input, x_noise, y_noise)\<close>, for an
  \<open>input_signal\<close> of the shape of a slice of \<open>inputs\<close>; \<open>None\<close> is the default
  \<open>external_input = False\<close>. When a method of the model raises, \<open>inputs\<close> has been bound
  and nothing else.
\<close>

definition NonlinearGroup_call ::
  "group_plant \<Rightarrow> mat \<Rightarrow> mat option \<Rightarrow> mat \<Rightarrow> mat \<Rightarrow> grp_fields component
     \<Rightarrow> grp_fields component outcome" where
  "NonlinearGroup_call gp input_signal ext_input x_noise y_noise self =
     (let f0 = comp_attrs self;
          f1 = f0\<lparr>grp_inputs := rotate1 (grp_inputs f0)\<rparr>;
          f2 = f1\<lparr>grp_inputs := (grp_inputs f1)[length (grp_inputs f1) - 1 := input_signal]\<rparr>;
          system_input = grp_inputs f2 ! 0;
          x0 = gp_limitations gp (grp_states f2) 0;
          handle_dyn = (\<lambda>xx. gp_dynamics gp xx system_input (grp_synapses_current f2))
      in case (if gp_time_type gp = ''c''
               then dynamic_runner handle_dyn x0 x0 (grp_sample_time f2) (grp_solver_type f2)
               else handle_dyn x0) of
           Inl e \<Rightarrow> Raised e (self\<lparr>comp_attrs := f2\<rparr>)
         | Inr x1 \<Rightarrow>
             let x = gp_limitations gp x1 1
             in (case gp_measurements gp x system_input (grp_synapses_current f2) of
                   Inl e \<Rightarrow> Raised e (self\<lparr>comp_attrs := f2\<rparr>)
                 | Inr y \<Rightarrow>
                (case (if grp_enable_synapses f2
                       then gp_synapses gp x (grp_pre f2) (grp_post f2) ext_input
                       else Inr (grp_synapses_current f2)) of
                   Inl e \<Rightarrow> Raised e (self\<lparr>comp_attrs := f2\<rparr>)
                 | Inr syn \<Rightarrow>
                     Returned (self\<lparr>comp_attrs := f2\<lparr>grp_synapses_current := syn,
                                                      grp_states := np_add x x_noise,
                                                      grp_outputs := np_add y y_noise\<rparr>\<rparr>))))"

text \<open>\<open>NonlinearGroup.reset\<close>: the attributes become the backup, which is copied anew.\<close>

definition NonlinearGroup_reset :: "grp_fields component \<Rightarrow> grp_fields component" where
  "NonlinearGroup_reset self =
     (let temp_1 = comp_backup self in \<lparr>comp_attrs = temp_1, comp_backup = temp_1\<rparr>)"

fun NonlinearGroup_calls ::
  "group_plant \<Rightarrow> grp_fields component \<Rightarrow> (mat \<times> mat option \<times> mat \<times> mat) list
     \<Rightarrow> grp_fields component" where
  "NonlinearGroup_calls gp self [] = self"
| "NonlinearGroup_calls gp self ((u, ext, xn, yn) # rest) =
     (case NonlinearGroup_call gp u ext xn yn self of
        Raised e f \<Rightarrow> NonlinearGroup_calls gp f rest
      | Returned f \<Rightarrow> NonlinearGroup_calls gp f rest)"

section \<open>Recording into a scope and rewinding it\<close>

text \<open>The sum of two flat arrays by numpy's broadcasting.\<close>

definition np_add_flat :: "vec \<Rightarrow> vec \<Rightarrow> error + vec" where
  "np_add_flat a b =
     (if length a = length b then Inr (map2 (+) a b)
      else (case a of
              [x] \<Rightarrow> Inr (map (\<lambda>y. x + y) b)
            | _ \<Rightarrow> (case b of [y] \<Rightarrow> Inr (map (\<lambda>x. x + y) a) | _ \<Rightarrow> Inl ValueError)))"

text \<open>
  \<open>Scope.get(data, noise = ...)\<close>. \<open>noise_signal\<close> is the draw
  \<open>np.random.normal(0, add_noise_var, [n_signals, 1])\<close> of this call, all zeros for the
  default variance 0. The column \<open>current_step\<close> of \<open>signals\<close> is written in place and the
  counter advances.
\<close>

definition Scope_get :: "Scope \<Rightarrow> vec \<Rightarrow> mat \<Rightarrow> Scope outcome" where
  "Scope_get self data noise_signal =
     (case np_add_flat data (flatten noise_signal) of
        Inl e \<Rightarrow> Raised e self
      | Inr v \<Rightarrow>
          (case set_col (signals self) (sc_current_step self) v of
             Inl e \<Rightarrow> Raised e self
           | Inr sg \<Rightarrow> Returned (self\<lparr>signals := sg,
                                       sc_current_step := sc_current_step self + 1\<rparr>)))"

text \<open>\<open>Scope.reset\<close>: its one statement is \<open>self.current_step = 0\<close>.\<close>

definition Scope_reset :: "Scope \<Rightarrow> Scope" where
  "Scope_reset self = self\<lparr>sc_current_step := 0\<rparr>"
section \<open>Properties\<close>


subsection \<open>Evaluation and array lemmas\<close>

lemmas arr_defs = nrows_def ncols_def col_def reshape_col_def flatten_def mat_T_def dot_def
  mat_mul_def mat_add_def mat_sub_def smul_def eye_def zeros_def set_col_def add_bcast_def
  take_cols_def hconcat_def np_diag_def set_col_2d_def

lemma upt_eval: "[0..<Suc n] = [0..<n] @ [n]"
  by simp

lemma those_None_iff: "those ys = None \<longleftrightarrow> None \<in> set ys"
  by (induction ys) (auto split: option.splits)

lemma col_set_col:
  assumes "set_col M k v = Inr M'" "length v = length M" "list_all (\<lambda>r. k < length r) M"
  shows "col M' k = v"
proof -
  from assms have M': "M' = map2 (\<lambda>r x. r[k := x]) M v"
    by (auto simp: set_col_def nrows_def split: if_splits)
  show ?thesis
    unfolding M' col_def using assms(2,3)
    by (intro nth_equalityI) (auto simp: list_all_length)
qed

lemma set_col_other:
  assumes "set_col M k v = Inr M'" "j \<noteq> k"
  shows "col M' j = col M j"
proof (cases "length v = nrows M")
  case True
  with assms have M': "M' = map2 (\<lambda>r x. r[k := x]) M v"
    by (auto simp: set_col_def split: if_splits)
  show ?thesis
    unfolding M' col_def using True assms(2)
    by (intro nth_equalityI) (auto simp: nrows_def)
next
  case False
  with assms obtain x where "M' = map (\<lambda>r. r[k := x]) M"
    by (auto simp: set_col_def split: if_splits list.splits)
  with assms(2) show ?thesis by (simp add: col_def)
qed

subsection \<open>The scalar estimators\<close>

lemma scalar_ekf_constructed: "Nonlinear_init scalar_plant [0, 1, 2] ekf_kwargs = Inr scalar_ekf"
  by (simp add: Nonlinear_init_def scalar_plant_def linear_plant_def ekf_kwargs_def
      scalar_ekf_def arr_defs mean_step_def Let_def numeral_3_eq_3)

lemma scalar_ukf_constructed: "Nonlinear_init scalar_plant [0, 1, 2] ukf_kwargs = Inr scalar_ukf"
  by (simp add: Nonlinear_init_def scalar_plant_def linear_plant_def ukf_kwargs_def
      scalar_ekf_def scalar_ukf_def ukf_weights_def arr_defs mean_step_def Let_def
      numeral_3_eq_3)

text \<open>A tick of each estimator with input 1 and a missing measurement.\<close>

lemma scalar_ekf_missing_tick:
  "nextstepEKF la scalar_plant scalar_ekf [1] [None] =
     Returned (scalar_ekf\<lparr>inputs := [[1, 0, 0]], outputs := [[None, Some 0, Some 0]],
                          states := [[0, 1, 0, 0]], covariance := [[2]], current_step := 1\<rparr>)"
  by (simp add: nextstepEKF_def ekf_posterior_def scalar_plant_def scalar_ekf_def
      linear_plant_def record_and_linearise_def predict_state_def predict_cov_def
      store_posterior_def arr_defs Let_def numeral_2_eq_2 numeral_3_eq_3 upt_eval)

lemma scalar_ukf_missing_tick:
  "nextstepUKF linalg_1x1 scalar_plant scalar_ukf [1] [None] =
     Returned (scalar_ukf\<lparr>inputs := [[1, 0, 0]], outputs := [[None, Some 0, Some 0]],
                          states := [[- 1, 7 / 2, 0, 0]], covariance := [[191 / 8]],
                          current_step := 1\<rparr>)"
  by (simp add: nextstepUKF_def scalar_plant_def scalar_ekf_def scalar_ukf_def linear_plant_def
      linalg_1x1_def cholesky_1x1_def record_and_linearise_def store_posterior_def
      ukf_predict_def ukf_predict_point_def sigma_points_def arr_defs Let_def
      numeral_2_eq_2 numeral_3_eq_3 upt_eval)

text \<open>A tick of the EKF with input 1 and measurement 1.\<close>

lemma scalar_ekf_tick:
  "nextstepEKF linalg_1x1 scalar_plant scalar_ekf [1] [Some 1] =
     Returned (scalar_ekf\<lparr>inputs := [[1, 0, 0]], outputs := [[Some 1, Some 0, Some 0]],
                          states := [[0, 1, 0, 0]], covariance := [[2 / 3]],
                          current_step := 1\<rparr>)"
  by (simp add: nextstepEKF_def ekf_posterior_def scalar_plant_def scalar_ekf_def
      linear_plant_def linalg_1x1_def inv_1x1_def record_and_linearise_def predict_state_def
      predict_cov_def store_posterior_def arr_defs Let_def numeral_2_eq_2 numeral_3_eq_3
      upt_eval)

subsection \<open>What a tick writes into the input and output histories\<close>

lemma record_and_linearise_writes:
  assumes "record_and_linearise p s u y = Inr (jc, s1)"
  shows "set_col (inputs s) (current_step s) u = Inr (inputs s1)"
    and "set_col (outputs s) (current_step s) y = Inr (outputs s1)"
    and "current_step s1 = current_step s"
  using assms
  by (auto simp: record_and_linearise_def Let_def split: if_splits sum.splits prod.splits)

lemma store_posterior_keeps:
  assumes "store_posterior s xm pm = Returned s'"
  shows "inputs s' = inputs s" "outputs s' = outputs s"
  using assms by (auto simp: store_posterior_def split: sum.splits)

lemma nextstepEKF_writes:
  assumes "nextstepEKF la p s u y = Returned s'"
  shows "set_col (inputs s) (current_step s) u = Inr (inputs s')
       \<and> set_col (outputs s) (current_step s) y = Inr (outputs s')"
proof -
  from assms obtain jc s1 xm pm where r: "record_and_linearise p s u y = Inr (jc, s1)"
    and st: "store_posterior s1 xm pm = Returned s'"
    by (auto simp: nextstepEKF_def Let_def split: sum.splits prod.splits option.splits)
  from record_and_linearise_writes[OF r] store_posterior_keeps[OF st] show ?thesis by simp
qed

lemma nextstepUKF_writes:
  assumes "nextstepUKF la p s u y = Returned s'"
  shows "set_col (inputs s) (current_step s) u = Inr (inputs s')
       \<and> set_col (outputs s) (current_step s) y = Inr (outputs s')"
proof -
  from assms obtain jc s1 x xm pm where r: "record_and_linearise p s u y = Inr (jc, s1)"
    and st: "store_posterior (s1\<lparr>states := x\<rparr>) xm pm = Returned s'"
    by (auto simp: nextstepUKF_def Let_def split: sum.splits prod.splits option.splits)
  from record_and_linearise_writes[OF r] store_posterior_keeps[OF st] show ?thesis by simp
qed

subsection \<open>The linear filter keeps its backup\<close>

lemma lkf_call_backup:
  "lkf_call la u y f = Returned f' \<Longrightarrow> backup f' = backup f"
  "lkf_call la u y f = Raised e f' \<Longrightarrow> backup f' = backup f"
  by (auto simp: lkf_call_def Let_def split: option.splits)

lemma lkf_calls_backup: "backup (lkf_calls la f uys) = backup f"
proof (induction uys arbitrary: f)
  case Nil
  show ?case by simp
next
  case (Cons uy uys)
  obtain u y where uy: "uy = (u, y)"
    by (cases uy)
  show ?case
  proof (cases "lkf_call la u y f")
    case (Returned f')
    with Cons[of f'] uy lkf_call_backup(1)[OF Returned] show ?thesis by simp
  next
    case (Raised e f')
    with Cons[of f'] uy lkf_call_backup(2)[OF Raised] show ?thesis by simp
  qed
qed

subsection \<open>The other components with a backup keep it\<close>

lemma LtiGroup_call_backup:
  "LtiGroup_call u xn yn rx ry f = Returned f' \<Longrightarrow> comp_backup f' = comp_backup f"
  "LtiGroup_call u xn yn rx ry f = Raised e f' \<Longrightarrow> comp_backup f' = comp_backup f"
  by (auto simp: LtiGroup_call_def Let_def split: sum.splits)

lemma LtiGroup_calls_backup: "comp_backup (LtiGroup_calls f cs) = comp_backup f"
proof (induction cs arbitrary: f)
  case Nil
  show ?case by simp
next
  case (Cons c cs)
  obtain u xn yn rx ry where c: "c = (u, xn, yn, rx, ry)"
    by (cases c)
  show ?case
  proof (cases "LtiGroup_call u xn yn rx ry f")
    case (Returned f')
    with Cons[of f'] c LtiGroup_call_backup(1)[OF Returned] show ?thesis by simp
  next
    case (Raised e f')
    with Cons[of f'] c LtiGroup_call_backup(2)[OF Raised] show ?thesis by simp
  qed
qed

lemma NeuroIdentifier_call_backup:
  "NeuroIdentifier_call cl u x f = Returned f' \<Longrightarrow> comp_backup f' = comp_backup f"
  "NeuroIdentifier_call cl u x f = Raised e f' \<Longrightarrow> comp_backup f' = comp_backup f"
  by (auto simp: NeuroIdentifier_call_def Let_def split: sum.splits)

lemma NeuroIdentifier_calls_backup:
  "comp_backup (NeuroIdentifier_calls cl f cs) = comp_backup f"
proof (induction cs arbitrary: f)
  case Nil
  show ?case by simp
next
  case (Cons c cs)
  obtain u x where c: "c = (u, x)"
    by (cases c)
  show ?case
  proof (cases "NeuroIdentifier_call cl u x f")
    case (Returned f')
    with Cons[of f'] c NeuroIdentifier_call_backup(1)[OF Returned] show ?thesis by simp
  next
    case (Raised e f')
    with Cons[of f'] c NeuroIdentifier_call_backup(2)[OF Raised] show ?thesis by simp
  qed
qed

lemma NonlinearGroup_call_backup:
  "NonlinearGroup_call gp u ext xn yn f = Returned f' \<Longrightarrow> comp_backup f' = comp_backup f"
  "NonlinearGroup_call gp u ext xn yn f = Raised e f' \<Longrightarrow> comp_backup f' = comp_backup f"
  by (auto simp: NonlinearGroup_call_def Let_def split: sum.splits)

lemma NonlinearGroup_calls_backup:
  "comp_backup (NonlinearGroup_calls gp f cs) = comp_backup f"
proof (induction cs arbitrary: f)
  case Nil
  show ?case by simp
next
  case (Cons c cs)
  obtain u ext xn yn where c: "c = (u, ext, xn, yn)"
    by (cases c)
  show ?case
  proof (cases "NonlinearGroup_call gp u ext xn yn f")
    case (Returned f')
    with Cons[of f'] c NonlinearGroup_call_backup(1)[OF Returned] show ?thesis by simp
  next
    case (Raised e f')
    with Cons[of f'] c NonlinearGroup_call_backup(2)[OF Raised] show ?thesis by simp
  qed
qed

subsection \<open>Shapes after a column write, and the Lorenz estimator\<close>

lemma set_col_shape:
  assumes "set_col M k v = Inr M'"
  shows "nrows M' = nrows M" "ncols M' = ncols M"
proof -
  from assms have "(M' = map2 (\<lambda>r x. r[k := x]) M v \<and> length v = length M)
      \<or> (\<exists>x. M' = map (\<lambda>r. r[k := x]) M)"
    by (auto simp: set_col_def nrows_def split: if_splits list.splits)
  then show "nrows M' = nrows M" "ncols M' = ncols M"
    by (cases M; cases v; auto simp: nrows_def ncols_def)+
qed

lemma Lorenz_jacobians_NameError:
  "2 < nrows x \<Longrightarrow> k < ncols x \<Longrightarrow> Lorenz_jacobians x us k st t = (Inl NameError, x)"
  by (simp add: Lorenz_jacobians_def Let_def)

lemma Lorenz_jacobians_raise: "\<exists>e. fst (Lorenz_jacobians x us k st t) = Inl e"
  by (simp add: Lorenz_jacobians_def Let_def)

lemma Lorenz_linearise:
  assumes "current_step s < length (time_line s)"
    and "set_col (inputs s) (current_step s) u = Inr inp"
    and "set_col (outputs s) (current_step s) y = Inr out"
    and "2 < nrows (states s)" "current_step s < ncols (states s)"
    and "jacobians p = Lorenz_jacobians"
  shows "record_and_linearise p s u y = Inl (NameError, s\<lparr>inputs := inp, outputs := out\<rparr>)"
  using assms by (simp add: record_and_linearise_def Let_def Lorenz_jacobians_NameError)

lemma Lorenz_init:
  assumes "Nonlinear_init (Lorenz\<lparr>num_states := ns\<rparr>) tline kw = Inr s"
  shows "current_step s = 0" "time_line s = tline" "nrows (states s) = 3"
    "ncols (states s) = length tline + 1" "inputs s = zeros 1 (length tline)"
    "outputs s = replicate 2 (replicate (length tline) (Some 0))"
    "estimator s = (kw_estimator kw \<noteq> None)"
    "estimator s \<Longrightarrow>
       est_approach s = Some (case kw_approach kw of None \<Rightarrow> ''ekf'' | Some a \<Rightarrow> a)"
proof -
  let ?z = "zeros 3 (length tline + 1)"
  from assms obtain x1 x2 where x1: "set_col ?z 0 [1, 1, 1] = Inr x1"
    and x2: "(case kw_initial kw of None \<Rightarrow> Inr x1 | Some v \<Rightarrow> set_col x1 0 v) = Inr x2"
    by (auto simp: Nonlinear_init_def Lorenz_def Let_def split: sum.splits)
  have z: "nrows ?z = 3" "ncols ?z = length tline + 1"
    by (simp_all add: zeros_def nrows_def ncols_def numeral_3_eq_3)
  from set_col_shape[OF x1] z have s1: "nrows x1 = 3" "ncols x1 = length tline + 1"
    by simp_all
  from x2 s1 have s2: "nrows x2 = 3 \<and> ncols x2 = length tline + 1"
    by (cases "kw_initial kw") (auto dest: set_col_shape)
  from assms x1 x2 have s: "states s = x2"
    by (auto simp: Nonlinear_init_def Lorenz_def Let_def
        split: sum.splits if_splits option.splits)
  from s s2 show "nrows (states s) = 3" "ncols (states s) = length tline + 1"
    by simp_all
  from assms x1 x2 show "current_step s = 0" "time_line s = tline"
    "inputs s = zeros 1 (length tline)"
    "outputs s = replicate 2 (replicate (length tline) (Some 0))"
    "estimator s = (kw_estimator kw \<noteq> None)"
    "estimator s \<Longrightarrow>
       est_approach s = Some (case kw_approach kw of None \<Rightarrow> ''ekf'' | Some a \<Rightarrow> a)"
    by (auto simp: Nonlinear_init_def Lorenz_def Let_def
        split: sum.splits if_splits option.splits)
qed

lemma Lorenz_ekf_constructed:
  "Nonlinear_init Lorenz [0, 1, 2] ekf_kwargs =
     Inr \<lparr>time_line = [0, 1, 2], sample_time = 1, n_steps = 3, solver_type = Euler,
          current_step = 0, inputs = [[0, 0, 0]],
          outputs = [[Some 0, Some 0, Some 0], [Some 0, Some 0, Some 0]],
          states = [[1, 0, 0, 0], [1, 0, 0, 0], [1, 0, 0, 0]], estimator = True,
          est_approach = Some ''ekf'', covariance = smul 1000 (eye 3), ukf = None\<rparr>"
  by (simp add: Nonlinear_init_def Lorenz_def ekf_kwargs_def mean_step_def set_col_def zeros_def
      nrows_def ncols_def Let_def numeral_3_eq_3 numeral_2_eq_2)

subsection \<open>The QuadrupleTank estimator\<close>

lemma qt_ekf_constructed:
  "Nonlinear_init QuadrupleTank [0, 1, 2] ekf_kwargs = Inr qt_ekf"
  "Nonlinear_init (QuadrupleTank\<lparr>q_matrix := Some qm\<rparr>) [0, 1, 2] ekf_kwargs = Inr qt_ekf"
  by (simp_all add: Nonlinear_init_def QuadrupleTank_def ekf_kwargs_def mean_step_def
      set_col_def zeros_def qt_ekf_def nrows_def ncols_def Let_def eval_nat_numeral)

subsection \<open>Scopes of rectangular signal arrays\<close>

lemma rect_ncols: "rect n t M \<Longrightarrow> 0 < n \<Longrightarrow> ncols M = t"
  by (cases M) (auto simp: rect_def ncols_def)

lemma rect_nrows: "rect n t M \<Longrightarrow> nrows M = n"
  by (simp add: rect_def nrows_def)

lemma rect_singletons: "rect n (Suc 0) M \<Longrightarrow> map (replicate (Suc 0)) (concat M) = M"
proof (induction M arbitrary: n)
  case Nil
  show ?case by simp
next
  case (Cons r M)
  from Cons.prems obtain x where r: "r = [x]"
    by (cases r) (auto simp: rect_def)
  from Cons.prems have "rect (length M) (Suc 0) M"
    by (simp add: rect_def)
  with Cons.IH r show ?case by simp
qed

lemma rect_concat_length: "rect n t M \<Longrightarrow> length (concat M) = n * t"
  by (induction M arbitrary: n) (auto simp: rect_def)

lemma Scope_init_rect:
  assumes "rect n t M" "length tline = t" "0 < t"
  shows "Scope_init tline n M =
           Inr \<lparr>sc_time_line = tline, n_signals = n, signals = M, sc_current_step = 0, sc_n = t\<rparr>"
proof (cases "n = 0")
  case True
  with assms have "M = []" by (simp add: rect_def)
  with True assms show ?thesis
    by (simp add: Scope_init_def mul_bcast_ones_def nrows_def ncols_def flatten_def zeros_def Let_def)
next
  case False
  with assms have sh: "nrows M = n" "ncols M = t"
    by (simp_all add: rect_nrows rect_ncols)
  show ?thesis
  proof (cases "t = 1")
    case True
    with assms rect_singletons[of n M] rect_concat_length[of n t M]
    have "map (replicate (Suc 0)) (concat M) = M" "length (concat M) = n"
      by simp_all
    with True sh assms(2) show ?thesis
      by (simp add: Scope_init_def mul_bcast_ones_def flatten_def Let_def)
  next
    case t: False
    with assms(3) False have "n + t \<noteq> n" "n + t \<noteq> n + 1" "n + t \<noteq> 1" "n + t \<noteq> 2"
      by auto
    with sh assms(2) show ?thesis
      by (simp add: Scope_init_def Let_def)
  qed
qed

lemma take_rows_ok:
  "list_all (\<lambda>i. i < length M) sel \<Longrightarrow> take_rows M sel = Inr (map (\<lambda>i. M ! i) sel)"
  by (simp add: take_rows_def nrows_def)

lemma rect_rows: "rect n t M \<Longrightarrow> list_all (\<lambda>i. i < n) sel \<Longrightarrow> rect (length sel) t (map (\<lambda>i. M ! i) sel)"
  by (auto simp: rect_def list_all_iff)

lemma rect_append: "rect n t X \<Longrightarrow> rect m t Y \<Longrightarrow> rect (n + m) t (X @ Y)"
  by (auto simp: rect_def)

lemma vconcat_rect: "rect n t X \<Longrightarrow> rect m t Y \<Longrightarrow> vconcat X Y = Inr (X @ Y)"
  by (cases X; cases Y) (auto simp: vconcat_def rect_def ncols_def)

lemma map_nth_upt_drop: "map (\<lambda>i. (xs @ ys) ! i) [length xs..<length xs + length ys] = ys"
  by (intro nth_equalityI) (auto simp: nth_append)

lemma scopes_constructed:
  "Scope_init [0, 1] 2 [[1, 2], [3, 4]] = Inr scope_a"
  "Scope_init [0, 1] 2 [[5, 6], [7, 8]] = Inr scope_b"
  by (simp_all add: Scope_init_def scope_a_def scope_b_def nrows_def ncols_def zeros_def Let_def)

subsection \<open>Products with the identity\<close>

lemma dot_sum: "length u = length v \<Longrightarrow> dot u v = (\<Sum>k<length v. u ! k * v ! k)"
proof -
  assume l: "length u = length v"
  have "dot u v = (\<Sum>k = 0..<length (map2 (*) u v). map2 (*) u v ! k)"
    unfolding dot_def by (rule sum_list_sum_nth)
  also have "\<dots> = (\<Sum>k = 0..<length v. u ! k * v ! k)"
    using l by (intro sum.cong) auto
  finally show ?thesis by (simp add: atLeast0LessThan)
qed

lemma sum_pick: "i < (n::nat) \<Longrightarrow> (\<Sum>k<n. (if k = i then f k else 0)) = (f i :: real)"
  by (simp add: sum.delta)

lemma ncols_eye: "ncols (eye n) = n"
proof (cases n)
  case 0
  then show ?thesis by (simp add: eye_def ncols_def)
next
  case (Suc m)
  then have "[0..<n] = 0 # [1..<n]" by (simp add: upt_rec)
  with Suc show ?thesis by (simp add: eye_def ncols_def)
qed


lemma dot_unit_left:
  assumes "i < n" "length v = n"
  shows "dot (map (\<lambda>j. if i = j then 1 else 0) [0..<n]) v = v ! i"
proof -
  have "dot (map (\<lambda>j. if i = j then 1 else 0) [0..<n]) v
        = (\<Sum>k<n. map (\<lambda>j. if i = j then 1 else 0) [0..<n] ! k * v ! k)"
    using assms by (simp add: dot_sum)
  also have "\<dots> = (\<Sum>k<n. (if k = i then v ! k else 0))"
    by (rule sum.cong) auto
  also have "\<dots> = v ! i"
    using assms(1) by (rule sum_pick)
  finally show ?thesis .
qed

lemma dot_unit_right:
  assumes "i < n" "length v = n"
  shows "dot v (map (\<lambda>j. if j = i then 1 else 0) [0..<n]) = v ! i"
proof -
  have "dot v (map (\<lambda>j. if j = i then 1 else 0) [0..<n])
        = (\<Sum>k<n. v ! k * map (\<lambda>j. if j = i then 1 else 0) [0..<n] ! k)"
    using assms by (simp add: dot_sum)
  also have "\<dots> = (\<Sum>k<n. (if k = i then v ! k else 0))"
    by (rule sum.cong) auto
  also have "\<dots> = v ! i"
    using assms(1) by (rule sum_pick)
  finally show ?thesis .
qed

lemma length_eye: "length (eye n) = n"
  by (simp add: eye_def)

lemma col_eye: "j < n \<Longrightarrow> col (eye n) j = map (\<lambda>i. if i = j then 1 else 0) [0..<n]"
  by (simp add: col_def eye_def)

lemma mat_T_eye: "mat_T (eye n) = eye n"
proof (rule nth_equalityI)
  show "length (mat_T (eye n)) = length (eye n)"
    by (simp add: mat_T_def ncols_eye length_eye)
next
  fix i assume "i < length (mat_T (eye n))"
  then have i: "i < n" by (simp add: mat_T_def ncols_eye)
  have "mat_T (eye n) ! i = map (\<lambda>j. if j = i then 1 else 0) [0..<n]"
    using i by (simp add: mat_T_def ncols_eye col_eye)
  also have "\<dots> = eye n ! i"
    using i by (auto simp: eye_def)
  finally show "mat_T (eye n) ! i = eye n ! i" .
qed

lemma mat_mul_eye_left:
  assumes "rect n m R"
  shows "mat_mul (eye n) R = R"
proof (cases "n = 0")
  case True
  with assms show ?thesis by (simp add: rect_def eye_def mat_mul_def)
next
  case False
  with assms have nc: "ncols R = m" by (simp add: rect_ncols)
  from assms have len: "length R = n" and rows: "\<And>i. i < n \<Longrightarrow> length (R ! i) = m"
    by (auto simp: rect_def list_all_length)
  show ?thesis
  proof (rule nth_equalityI)
    show "length (mat_mul (eye n) R) = length R"
      by (simp add: mat_mul_def eye_def len)
  next
    fix i assume "i < length (mat_mul (eye n) R)"
    then have i: "i < n" by (simp add: mat_mul_def eye_def)
    have "mat_mul (eye n) R ! i = map (\<lambda>j. dot (map (\<lambda>j. if i = j then 1 else 0) [0..<n]) (col R j)) [0..<m]"
      using i by (simp add: mat_mul_def eye_def nc)
    also have "\<dots> = map (\<lambda>j. R ! i ! j) [0..<m]"
      using i len by (simp add: dot_unit_left col_def)
    also have "\<dots> = R ! i"
      using rows[OF i] by (intro nth_equalityI) auto
    finally show "mat_mul (eye n) R ! i = R ! i" .
  qed
qed

lemma mat_mul_eye_right:
  assumes "rect n m R"
  shows "mat_mul R (eye m) = R"
proof (rule nth_equalityI)
  show "length (mat_mul R (eye m)) = length R"
    by (simp add: mat_mul_def)
next
  fix i assume "i < length (mat_mul R (eye m))"
  then have i: "i < length R" by (simp add: mat_mul_def)
  with assms have row: "length (R ! i) = m"
    by (auto simp: rect_def list_all_length)
  have "mat_mul R (eye m) ! i = map (\<lambda>j. dot (R ! i) (col (eye m) j)) [0..<m]"
    using i by (simp add: mat_mul_def ncols_eye)
  also have "\<dots> = map (\<lambda>j. R ! i ! j) [0..<m]"
    using row by (simp add: col_eye dot_unit_right)
  also have "\<dots> = R ! i"
    using row by (intro nth_equalityI) auto
  finally show "mat_mul R (eye m) ! i = R ! i" .
qed

lemma noise_identity: "rect n n Q \<Longrightarrow> mat_mul (mat_mul (eye n) Q) (mat_T (eye n)) = Q"
  by (simp add: mat_mul_eye_left mat_mul_eye_right mat_T_eye)

subsection \<open>One tick of the EKF on a linear plant and one call of the linear filter\<close>

lemma length_mat_mul: "length (mat_mul X Y) = length X"
  by (simp add: mat_mul_def)

lemma rect_mat_mul: "length X = n \<Longrightarrow> ncols Y = m \<Longrightarrow> rect n m (mat_mul X Y)"
  by (simp add: rect_def mat_mul_def list_all_iff)

lemma rect_mat_add: "rect n m X \<Longrightarrow> rect n m Y \<Longrightarrow> rect n m (mat_add X Y)"
  by (auto simp: rect_def mat_add_def list_all_iff set_zip)

lemma rect_mat_sub: "rect n m X \<Longrightarrow> rect n m Y \<Longrightarrow> rect n m (mat_sub X Y)"
  by (auto simp: rect_def mat_sub_def list_all_iff set_zip)

lemma rect_reshape_col: "rect (length v) 1 (reshape_col v)"
  by (simp add: rect_def reshape_col_def list_all_iff)

lemma length_col: "length (col M j) = length M"
  by (simp add: col_def)

lemma reshape_col_flatten: "rect n 1 M \<Longrightarrow> reshape_col (flatten M) = M"
proof -
  assume r: "rect n 1 M"
  have "map (\<lambda>x. [x]) (concat M) = map (replicate (Suc 0)) (concat M)"
    by simp
  also from r have "\<dots> = M"
    by (simp add: rect_singletons[of n M])
  finally show ?thesis
    by (simp add: reshape_col_def flatten_def)
qed

lemma flatten_length: "rect n 1 M \<Longrightarrow> length (flatten M) = n"
  using rect_concat_length[of n 1 M] by (simp add: flatten_def)

lemma set_col_rect:
  assumes "rect n c M" "set_col M k v = Inr M'"
  shows "rect n c M'"
proof -
  from assms(2) have "(M' = map2 (\<lambda>r x. r[k := x]) M v \<and> length v = length M)
      \<or> (\<exists>x. M' = map (\<lambda>r. r[k := x]) M)"
    by (auto simp: set_col_def nrows_def split: if_splits list.splits)
  with assms(1) show ?thesis
    by (auto simp: rect_def list_all_iff set_zip)
qed

lemma set_col_ok:
  assumes "rect n c M" "0 < n" "k < c" "length v = n"
  shows "\<exists>M'. set_col M k v = Inr M' \<and> col M' k = v \<and> rect n c M'"
proof -
  from assms have nc: "ncols M = c" by (simp add: rect_ncols)
  with assms obtain M' where M': "set_col M k v = Inr M'"
    by (auto simp: set_col_def rect_def nrows_def)
  from assms have "list_all (\<lambda>r. k < length r) M" "length v = length M"
    by (auto simp: rect_def list_all_iff)
  with col_set_col[OF M'] set_col_rect[OF assms(1) M'] M' show ?thesis by blast
qed

lemma those_map_Some: "those (map Some ys) = Some ys"
  by (induction ys) simp_all


lemma ncols_reshape_col: "v \<noteq> [] \<Longrightarrow> ncols (reshape_col v) = Suc 0"
  by (cases v) (simp_all add: ncols_def reshape_col_def)

lemma ekf_lkf_step:
  assumes inv: "ekf_matches_lkf a b h qm rm t s f"
    and sh: "rect n n a" "rect n m b" "rect q n h" "rect n n qm" "rect q q rm"
    and pos: "0 < n" "0 < m" "0 < q"
    and k: "current_step s < t"
    and lu: "length u = m" and ly: "length y = q"
  shows "case lkf_call la u y f of
           Returned f' \<Rightarrow>
             (\<exists>s'. estimate la (linear_plant a b h d qm rm p0 x0) s u (map Some y) = Returned s'
                  \<and> ekf_matches_lkf a b h qm rm t s' f'
                  \<and> current_step s' = current_step s + 1)
         | Raised e f' \<Rightarrow>
             (\<exists>s'. estimate la (linear_plant a b h d qm rm p0 x0) s u (map Some y) = Raised e s')"
proof -
  let ?P = "linear_plant a b h d qm rm p0 x0"
  let ?k = "current_step s"
  have dims: "nrows a = n" "ncols b = m" "nrows h = q" "length a = n" "length h = q"
    "length qm = n" "length b = n"
    using sh pos by (simp_all add: rect_nrows rect_ncols) (simp_all add: rect_def)
  from inv have st: "rect n (t + 1) (states s)" and ip: "rect m t (inputs s)"
    and op: "rect q t (outputs s)" and tl: "length (time_line s) = t"
    and cv: "nrows (covariance s) = n"
    and est: "estimator s" "est_approach s = Some ''ekf''"
    and fa: "lkf_A (attrs f) = a" "lkf_B (attrs f) = b" "lkf_C (attrs f) = h"
      "lkf_Q (attrs f) = qm" "lkf_R (attrs f) = rm" "lkf_n_states (attrs f) = n"
    and xps: "x_ps (attrs f) = reshape_col (col (states s) ?k)"
    and pps: "P_ps (attrs f) = covariance s"
    by (simp_all add: ekf_matches_lkf_def dims)
  from set_col_ok[OF ip pos(2) k lu] obtain inp where
    inp: "set_col (inputs s) ?k u = Inr inp" "col inp ?k = u" "rect m t inp"
    by blast
  from set_col_ok[OF op pos(3) k, of "map Some y"] ly obtain out where
    out: "set_col (outputs s) ?k (map Some y) = Inr out" "rect q t out"
    by auto
  define s2 where "s2 = s\<lparr>inputs := inp, outputs := out\<rparr>"
  have rl: "record_and_linearise ?P s u (map Some y) = Inr ((a, b, h, d, eye n, eye q), s2)"
    using k tl inp(1) out(1)
    by (simp add: record_and_linearise_def linear_plant_def Let_def s2_def dims)
  define xpr where "xpr = mat_add (mat_mul a (x_ps (attrs f))) (mat_mul b (reshape_col u))"
  define ppr where "ppr = mat_add (mat_mul (mat_mul a (P_ps (attrs f))) (mat_T a)) qm"
  define S where "S = mat_add (mat_mul (mat_mul h ppr) (mat_T h)) rm"
  have nc: "ncols (states s) = t + 1" "ncols inp = t"
    using st inp(3) pos by (simp_all add: rect_ncols)
  have ps: "predict_state ?P s2 = Inr xpr"
    using k nc inp(2) xps
    by (simp add: predict_state_def linear_plant_def Let_def s2_def xpr_def)
  have pc: "predict_cov a (eye n) (covariance s2) qm = ppr"
    using noise_identity[OF sh(4)] pps by (simp add: predict_cov_def ppr_def s2_def)
  have Sx: "mat_add (mat_mul (mat_mul h ppr) (mat_T h))
              (mat_mul (mat_mul (eye q) (r_matrix ?P)) (mat_T (eye q))) = S"
    using noise_identity[OF sh(5)] by (simp add: S_def linear_plant_def)
  have lkf_inv: "mat_add (mat_mul (mat_mul (lkf_C (attrs f))
          (mat_add (mat_mul (mat_mul (lkf_A (attrs f)) (P_ps (attrs f))) (mat_T (lkf_A (attrs f))))
             (lkf_Q (attrs f)))) (mat_T (lkf_C (attrs f)))) (lkf_R (attrs f)) = S"
    by (simp add: fa S_def ppr_def)
  show ?thesis
  proof (cases "np_inv la S")
    case None
    then have "lkf_call la u y f = Raised LinAlgError
         (f\<lparr>attrs := (attrs f)\<lparr>x_pr := xpr, P_pr := ppr\<rparr>\<rparr>)"
      using lkf_inv by (simp add: lkf_call_def Let_def fa xpr_def ppr_def)
    moreover from None have "estimate la ?P s u (map Some y) = Raised LinAlgError s2"
      using est rl ps pc Sx
      by (simp add: estimate_def nextstepEKF_def ekf_posterior_def those_map_Some
          linear_plant_def Let_def)
    ultimately show ?thesis by simp
  next
    case (Some si)
    define kg where "kg = mat_mul (mat_mul ppr (mat_T h)) si"
    define rs where "rs = mat_sub (reshape_col y) (mat_mul h xpr)"
    define xm where "xm = mat_add xpr (mat_mul kg rs)"
    define pm where "pm = mat_mul (mat_sub (eye n) (mat_mul kg h)) ppr"
    define f' where "f' = f\<lparr>attrs := (attrs f)\<lparr>x_pr := xpr, P_pr := ppr, K := kg, res := rs,
                                x_ps := xm, P_ps := pm\<rparr>\<rparr>"
    have call: "lkf_call la u y f = Returned f'"
      using Some lkf_inv
      by (simp add: lkf_call_def Let_def fa xpr_def ppr_def kg_def rs_def xm_def pm_def f'_def)
    have post: "ekf_posterior la ?P s2 h (eye q) xpr ppr (map Some y) = Inr (xm, pm)"
      using Some Sx cv
      by (simp add: ekf_posterior_def those_map_Some Let_def kg_def rs_def xm_def pm_def s2_def)
    \<comment> \<open>shapes\<close>
    have x0: "rect n 1 (x_ps (attrs f))"
      using rect_reshape_col[of "col (states s) ?k"] st
      by (simp add: xps length_col rect_def)
    have ncx: "ncols (x_ps (attrs f)) = 1" "ncols (reshape_col u) = 1" "ncols (reshape_col y) = 1"
      using x0 pos lu ly rect_ncols[OF x0 pos(1)]
      by (auto simp: ncols_reshape_col)
    have rxpr: "rect n 1 xpr"
      unfolding xpr_def
      by (intro rect_mat_add rect_mat_mul dims ncx)
    have ncxpr: "ncols xpr = 1"
      using rect_ncols[OF rxpr pos(1)] .
    have rrs: "rect q 1 rs"
      unfolding rs_def using rect_reshape_col[of y] ly
      by (intro rect_mat_sub rect_mat_mul dims ncxpr) simp
    have lppr: "length ppr = n"
      by (simp add: ppr_def mat_add_def length_mat_mul dims)
    have lkg: "length kg = n"
      by (simp add: kg_def length_mat_mul lppr)
    have rxm: "rect n 1 xm"
      unfolding xm_def using rect_ncols[OF rrs pos(3)]
      by (intro rect_mat_add rxpr rect_mat_mul lkg)
    have lpm: "nrows pm = n"
      by (simp add: pm_def nrows_def length_mat_mul mat_sub_def length_eye lkg)
    have st2: "rect n (t + 1) (states s2)"
      using st by (simp add: s2_def)
    from set_col_ok[OF st2 pos(1), of "?k + 1" "flatten xm"] k flatten_length[OF rxm]
    obtain X' where X': "set_col (states s2) (?k + 1) (flatten xm) = Inr X'"
      "col X' (?k + 1) = flatten xm" "rect n (t + 1) X'"
      by auto
    define s' where "s' = s2\<lparr>states := X', covariance := pm, current_step := ?k + 1\<rparr>"
    have store: "store_posterior s2 xm pm = Returned s'"
      using X'(1) by (simp add: store_posterior_def s'_def s2_def)
    have tick: "estimate la ?P s u (map Some y) = Returned s'"
      using est rl ps pc post store
      by (simp add: estimate_def nextstepEKF_def linear_plant_def Let_def)
    have inv': "ekf_matches_lkf a b h qm rm t s' f'"
      using est tl k X'(2,3) inp(3) out(2) lpm fa reshape_col_flatten[OF rxm]
      by (simp add: ekf_matches_lkf_def s'_def s2_def f'_def dims)
    from call tick inv' show ?thesis
      by (simp add: s'_def s2_def)
  qed
qed

lemma ekf_lkf_run:
  assumes sh: "rect n n a" "rect n m b" "rect q n h" "rect n n qm" "rect q q rm"
    and pos: "0 < n" "0 < m" "0 < q"
  shows "ekf_matches_lkf a b h qm rm t s f \<Longrightarrow> current_step s + length uys \<le> t \<Longrightarrow>
         list_all (\<lambda>(u, y). length u = m \<and> length y = q) uys \<Longrightarrow>
         ekf_run la (linear_plant a b h d qm rm p0 x0) s (map (\<lambda>(u, y). (u, map Some y)) uys)
           = lkf_run la f uys"
proof (induction uys arbitrary: s f)
  case Nil
  show ?case by simp
next
  case (Cons uy uys)
  obtain u y where uy: "uy = (u, y)"
    by (cases uy)
  from Cons.prems uy have k: "current_step s < t" and lu: "length u = m" and ly: "length y = q"
    and rest: "list_all (\<lambda>(u, y). length u = m \<and> length y = q) uys"
    by simp_all
  note step = ekf_lkf_step[OF Cons.prems(1) sh pos k lu ly, of la d p0 x0]
  show ?case
  proof (cases "lkf_call la u y f")
    case (Returned f')
    with step obtain s' where s': "estimate la (linear_plant a b h d qm rm p0 x0) s u (map Some y) = Returned s'"
      "ekf_matches_lkf a b h qm rm t s' f'" "current_step s' = current_step s + 1"
      by auto
    from s'(3) Cons.prems(2) have "current_step s' + length uys \<le> t"
      by simp
    from Cons.IH[OF s'(2) this rest] s' Returned uy show ?thesis
      by (simp add: ekf_matches_lkf_def)
  next
    case (Raised e f')
    with step obtain s' where "estimate la (linear_plant a b h d qm rm p0 x0) s u (map Some y) = Raised e s'"
      by auto
    with Raised uy show ?thesis by simp
  qed
qed

lemma ekf_lkf_init:
  assumes sh: "rect n n a" "rect n m b" "rect q n h" "rect n n qm" "rect q q rm" "rect n n p0"
    and x0: "length x0 = n"
    and pos: "0 < n" "0 < m" "0 < q"
    and init: "Nonlinear_init (linear_plant a b h d qm rm p0 x0) tline ekf_kwargs = Inr s"
  shows "ekf_matches_lkf a b h qm rm (length tline) s
           (lkf_init (SysTuple a b h d)
              \<lparr>kw_x_0 = Some x0, kw_P_0 = Some p0, kw_process_noise = Some qm,
               kw_measurement_noise = Some rm\<rparr>)
         \<and> current_step s = 0"
proof -
  let ?t = "length tline"
  have dims: "nrows a = n" "ncols b = m" "nrows h = q" "nrows p0 = n" "ncols p0 = n"
    "nrows qm = n" "ncols qm = n" "nrows rm = q" "ncols rm = q"
    using sh pos by (simp_all add: rect_nrows rect_ncols)
  have z: "rect n (?t + 1) (zeros n (?t + 1))" "rect m ?t (zeros m ?t)"
    "rect q ?t (replicate q (replicate ?t (Some (0::real))))"
    by (simp_all add: rect_def zeros_def list_all_iff)
  from set_col_ok[OF z(1) pos(1), of 0 x0] x0 obtain X where
    X: "set_col (zeros n (?t + 1)) 0 x0 = Inr X" "col X 0 = x0" "rect n (?t + 1) X"
    by auto
  from init X(1) have s: "s = \<lparr>time_line = tline, sample_time = mean_step tline, n_steps = ?t,
                      solver_type = Euler, current_step = 0,
                      inputs = zeros m ?t,
                      outputs = replicate q (replicate ?t (Some 0)),
                      states = X, estimator = True, est_approach = Some ''ekf'',
                      covariance = p0, ukf = None\<rparr>"
    by (simp add: Nonlinear_init_def linear_plant_def ekf_kwargs_def Let_def dims)
  show ?thesis
    using X(2,3) z(2,3)
    by (simp add: s ekf_matches_lkf_def lkf_init_def lkf_init_fields_def Let_def dims x0)
qed

subsection \<open>C1: the UKF weights at construction\<close>

text \<open>
  Claim C1 says that constructing a UKF estimator succeeds with
  \<open>w_m[0] = \<lambda>/(n_x + \<lambda>)\<close>, \<open>w_m[i] = 1/(2(n_x + \<lambda>))\<close> for the other \<open>i\<close>, and \<open>w_c\<close> equal to
  \<open>w_m\<close> but for \<open>w_c[0] = w_m[0] + (1 - \<alpha>\<^sup>2 + \<beta>)\<close>, with \<open>w_m\<close> unchanged by forming \<open>w_c\<close>.
  The code does otherwise, evaluated here. For the \<open>Lorenz\<close> class as the sources have it
  the constructor raises \<open>AttributeError\<close> on \<open>self.num_states\<close>, whatever the time line. For the
  same plant with \<open>num_states = 3\<close> (and its \<open>\<alpha> = 0.2\<close>, \<open>\<kappa> = 80\<close>, so \<open>\<lambda> = 8/25\<close>) the
  constructor returns with both weight vectors equal to
  \<open>[12909/4150, 25/166, ..., 25/166]\<close>, where the claim's \<open>w_m[0]\<close> is
  \<open>(8/25)/(3 + 8/25)\<close>. For every \<open>n\<close>, \<open>\<alpha>\<close> and \<open>\<kappa>\<close>, \<open>wm\<close> and \<open>wc\<close> are one array, whose
  first entry is \<open>1/(2(n + \<lambda>)) + (1 - \<alpha>\<^sup>2 + 2)\<close>.
\<close>

theorem C1_ukf_weights_in_the_code:
  "Nonlinear_init Lorenz tline ukf_kwargs = Inl AttributeError
   \<and> (case Nonlinear_init (Lorenz\<lparr>num_states := Some 3\<rparr>) [0, 1, 2] ukf_kwargs of
        Inl e \<Rightarrow> None
      | Inr s \<Rightarrow> map_option (\<lambda>w. (lambd w, arrays w (wm w), arrays w (wc w))) (ukf s))
     = Some (8 / 25,
             [12909 / 4150, 25 / 166, 25 / 166, 25 / 166, 25 / 166, 25 / 166, 25 / 166],
             [12909 / 4150, 25 / 166, 25 / 166, 25 / 166, 25 / 166, 25 / 166, 25 / 166])
   \<and> (8 / 25) / (3 + 8 / 25) \<noteq> (12909 / 4150 :: real)
   \<and> wm (ukf_weights n a kap 2) = wc (ukf_weights n a kap 2)
   \<and> arrays (ukf_weights n a kap 2) (wm (ukf_weights n a kap 2)) ! 0
       = 1 / (2 * (real n + lambd (ukf_weights n a kap 2))) + (1 - a\<^sup>2 + 2)"
proof -
  have a: "Nonlinear_init Lorenz tline ukf_kwargs = Inl AttributeError"
    by (simp add: Nonlinear_init_def Lorenz_def ukf_kwargs_def set_col_def zeros_def
        nrows_def ncols_def Let_def numeral_3_eq_3)
  have b: "(case Nonlinear_init (Lorenz\<lparr>num_states := Some 3\<rparr>) [0, 1, 2] ukf_kwargs of
        Inl e \<Rightarrow> None
      | Inr s \<Rightarrow> map_option (\<lambda>w. (lambd w, arrays w (wm w), arrays w (wc w))) (ukf s))
     = Some (8 / 25,
             [12909 / 4150, 25 / 166, 25 / 166, 25 / 166, 25 / 166, 25 / 166, 25 / 166],
             [12909 / 4150, 25 / 166, 25 / 166, 25 / 166, 25 / 166, 25 / 166, 25 / 166])"
    by code_simp
  have c: "(8 / 25) / (3 + 8 / 25) \<noteq> (12909 / 4150 :: real)"
    by simp
  have d: "wm (ukf_weights n a kap 2) = wc (ukf_weights n a kap 2)"
    by (simp add: ukf_weights_def Let_def)
  have e: "arrays (ukf_weights n a kap 2) (wm (ukf_weights n a kap 2)) ! 0
       = 1 / (2 * (real n + lambd (ukf_weights n a kap 2))) + (1 - a\<^sup>2 + 2)"
    by (simp add: ukf_weights_def Let_def)
  from a b c d e show ?thesis by blast
qed

subsection \<open>C2: the EKF on a linear plant and the linear Kalman filter\<close>

text \<open>
  Claim C2. For a linear discrete-time plant (dynamics \<open>A x + B u\<close>, measurement \<open>H x\<close>,
  identity limitation, constant Jacobians with \<open>L = M = I\<close>) and matching \<open>Q\<close>, \<open>R\<close>,
  initial state and initial covariance, the EKF recursion of \<open>estimate()\<close> produces at every
  step the posterior state and covariance of the \<open>LinearKalmanFilter\<close> recursion driven by
  the same inputs and outputs. The plant has \<open>n\<close> states, \<open>m\<close> inputs and \<open>q\<close> outputs, each
  at least one, and matrices of these dimensions; the estimator is the one that the
  constructor builds over a time line, the filter the one that its constructor builds from
  \<open>(A, B, H, D)\<close> with \<open>x_0\<close>, \<open>P_0\<close>, \<open>Q\<close> and \<open>R\<close>; the driver makes no more calls than the
  time line has instants, with inputs of \<open>m\<close> and outputs of \<open>q\<close> numbers. Both runs list
  the posterior pair after every tick and stop at the first call that raises, which is
  the same call in both: the only statement that can raise is the inverse, of the same
  matrix.
\<close>

theorem C2_ekf_equals_linear_kalman_filter:
  assumes "rect n n a" "rect n m b" "rect q n h" "rect n n qm" "rect q q rm" "rect n n p0"
    and "length x0 = n"
    and "0 < n" "0 < m" "0 < q"
    and "Nonlinear_init (linear_plant a b h d qm rm p0 x0) tline ekf_kwargs = Inr s"
    and "length uys \<le> length tline"
    and "list_all (\<lambda>(u, y). length u = m \<and> length y = q) uys"
  shows "ekf_run la (linear_plant a b h d qm rm p0 x0) s (map (\<lambda>(u, y). (u, map Some y)) uys)
       = lkf_run la (lkf_init (SysTuple a b h d)
                      \<lparr>kw_x_0 = Some x0, kw_P_0 = Some p0, kw_process_noise = Some qm,
                       kw_measurement_noise = Some rm\<rparr>) uys"
proof -
  from ekf_lkf_init[OF assms(1-11)] have
    inv: "ekf_matches_lkf a b h qm rm (length tline) s
           (lkf_init (SysTuple a b h d)
              \<lparr>kw_x_0 = Some x0, kw_P_0 = Some p0, kw_process_noise = Some qm,
               kw_measurement_noise = Some rm\<rparr>)"
    and k0: "current_step s = 0"
    by simp_all
  from k0 assms(12) have "current_step s + length uys \<le> length tline"
    by simp
  from ekf_lkf_run[OF assms(1-5) assms(8-10) inv this assms(13)] show ?thesis .
qed


text \<open>
  The scalar plant \<open>x' = x + u\<close>, \<open>y = x\<close> with unit covariances over the time line
  \<open>0, 1, 2\<close>, driven by \<open>u = 1, 1\<close> and \<open>y = 1, 3\<close>: both filters give the posterior states
  \<open>1\<close> and \<open>21/8\<close> with covariances \<open>2/3\<close> and \<open>5/8\<close>.
\<close>

theorem C2_ekf_equals_linear_kalman_filter_witness:
  "rect 1 1 [[1 :: real]] \<and> length [0 :: real] = 1 \<and> (0 :: nat) < 1
   \<and> Nonlinear_init (linear_plant [[1]] [[1]] [[1]] [[0]] [[1]] [[1]] [[1]] [0]) [0, 1, 2]
         ekf_kwargs = Inr scalar_ekf
   \<and> length [([1], [1]), ([1 :: real], [3 :: real])] \<le> length [0, 1, 2 :: real]
   \<and> list_all (\<lambda>(u, y). length u = 1 \<and> length y = 1) [([1], [1]), ([1 :: real], [3 :: real])]
   \<and> ekf_run linalg_1x1 (linear_plant [[1]] [[1]] [[1]] [[0]] [[1]] [[1]] [[1]] [0]) scalar_ekf
         [([1], [Some 1]), ([1], [Some 3])]
       = [([[1]], [[2 / 3]]), ([[21 / 8]], [[5 / 8]])]
   \<and> lkf_run linalg_1x1
         (lkf_init (SysTuple [[1]] [[1]] [[1]] [[0]])
            \<lparr>kw_x_0 = Some [0], kw_P_0 = Some [[1]], kw_process_noise = Some [[1]],
             kw_measurement_noise = Some [[1]]\<rparr>) [([1], [1]), ([1], [3])]
       = [([[1]], [[2 / 3]]), ([[21 / 8]], [[5 / 8]])]"
proof -
  have r: "rect 1 1 [[1 :: real]]" and l: "length [0 :: real] = 1" and p: "(0::nat) < 1"
    by (simp_all add: rect_def)
  have c: "Nonlinear_init (linear_plant [[1]] [[1]] [[1]] [[0]] [[1]] [[1]] [[1]] [0]) [0, 1, 2]
         ekf_kwargs = Inr scalar_ekf"
    using scalar_ekf_constructed by (simp add: scalar_plant_def)
  have n: "length [([1], [1]), ([1 :: real], [3 :: real])] \<le> length [0, 1, 2 :: real]"
    by simp
  have w: "list_all (\<lambda>(u, y). length u = 1 \<and> length y = 1)
             [([1], [1]), ([1 :: real], [3 :: real])]"
    by simp
  have k: "lkf_run linalg_1x1
         (lkf_init (SysTuple [[1]] [[1]] [[1]] [[0]])
            \<lparr>kw_x_0 = Some [0], kw_P_0 = Some [[1]], kw_process_noise = Some [[1]],
             kw_measurement_noise = Some [[1]]\<rparr>) [([1], [1]), ([1], [3])]
       = [([[1]], [[2 / 3]]), ([[21 / 8]], [[5 / 8]])]"
    by (simp add: lkf_call_def lkf_init_def lkf_init_fields_def linalg_1x1_def inv_1x1_def
        np_all_def arr_defs Let_def numeral_2_eq_2 upt_eval)
  from C2_ekf_equals_linear_kalman_filter [OF r r r r r r l p p p c n w, of linalg_1x1] k
  have e: "ekf_run linalg_1x1 (linear_plant [[1]] [[1]] [[1]] [[0]] [[1]] [[1]] [[1]] [0])
         scalar_ekf [([1], [Some 1]), ([1], [Some 3])]
       = [([[1]], [[2 / 3]]), ([[21 / 8]], [[5 / 8]])]"
    by simp
  from r l p c n w e k show ?thesis
    by blast
qed

subsection \<open>C3: a tick with a missing measurement\<close>

text \<open>
  Claim C3. On every EKF or UKF tick whose output vector has a not-a-number entry, the
  stored posterior state is the predicted state and the stored covariance is the predicted
  covariance, and the missing measurement raises no error. For such an output vector the
  tick is the two history writes and the Jacobian call, the prediction, and the store of
  the predicted pair: the inverse, the measurement function and \<open>r_matrix\<close> are not
  consulted, so the tick raises only where the history writes, the plant, the prediction
  or the store raise. On a state history of at least one row whose rows reach beyond column
  \<open>k + 1\<close>, the store of a vector with one entry per state returns, and column \<open>k + 1\<close>
  then holds that vector.
\<close>

theorem C3_missing_measurement_is_prediction_only:
  assumes "None \<in> set y"
  shows "nextstepEKF la p s u y =
           (case record_and_linearise p s u y of
              Inl (e, s1) \<Rightarrow> Raised e s1
            | Inr ((a, b, h, d, l, m), s1) \<Rightarrow>
                (case predict_state p s1 of
                   Inl e \<Rightarrow> Raised e s1
                 | Inr xp \<Rightarrow>
                     (case q_matrix p of
                        None \<Rightarrow> Raised AttributeError s1
                      | Some qm \<Rightarrow>
                          store_posterior s1 xp (predict_cov a l (covariance s1) qm))))
       \<and> nextstepUKF la p s u y =
           (case record_and_linearise p s u y of
              Inl (e, s1) \<Rightarrow> Raised e s1
            | Inr ((a, b, h, d, l, m), s1) \<Rightarrow>
                (case ukf_predict la p s1 l of
                   Inl (e, x) \<Rightarrow> Raised e (s1\<lparr>states := x\<rparr>)
                 | Inr (x, xp_cols, dPp, xp, pp) \<Rightarrow>
                     store_posterior (s1\<lparr>states := x\<rparr>) xp pp))
       \<and> (states s' \<noteq> [] \<and> length (flatten xp') = nrows (states s') \<and>
          list_all (\<lambda>r. current_step s' + 1 < length r) (states s') \<longrightarrow>
            (\<exists>x. store_posterior s' xp' pp' =
                   Returned (s'\<lparr>states := x, covariance := pp',
                                 current_step := current_step s' + 1\<rparr>)
                 \<and> col x (current_step s' + 1) = flatten xp'))"
proof -
  from assms have th: "those y = None"
    by (simp add: those_None_iff)
  have ekf: "nextstepEKF la p s u y =
           (case record_and_linearise p s u y of
              Inl (e, s1) \<Rightarrow> Raised e s1
            | Inr ((a, b, h, d, l, m), s1) \<Rightarrow>
                (case predict_state p s1 of
                   Inl e \<Rightarrow> Raised e s1
                 | Inr xp \<Rightarrow>
                     (case q_matrix p of
                        None \<Rightarrow> Raised AttributeError s1
                      | Some qm \<Rightarrow>
                          store_posterior s1 xp (predict_cov a l (covariance s1) qm))))"
    by (simp add: nextstepEKF_def ekf_posterior_def th Let_def
        split: sum.split prod.split option.split)
  have ukf: "nextstepUKF la p s u y =
           (case record_and_linearise p s u y of
              Inl (e, s1) \<Rightarrow> Raised e s1
            | Inr ((a, b, h, d, l, m), s1) \<Rightarrow>
                (case ukf_predict la p s1 l of
                   Inl (e, x) \<Rightarrow> Raised e (s1\<lparr>states := x\<rparr>)
                 | Inr (x, xp_cols, dPp, xp, pp) \<Rightarrow>
                     store_posterior (s1\<lparr>states := x\<rparr>) xp pp))"
    by (simp add: nextstepUKF_def th split: sum.split prod.split)
  have store: "\<exists>x. store_posterior s' xp' pp' =
                   Returned (s'\<lparr>states := x, covariance := pp',
                                 current_step := current_step s' + 1\<rparr>)
                 \<and> col x (current_step s' + 1) = flatten xp'"
    if ne: "states s' \<noteq> []" and len: "length (flatten xp') = nrows (states s')"
      and wide: "list_all (\<lambda>r. current_step s' + 1 < length r) (states s')"
  proof (cases "states s'")
    case Nil
    with ne show ?thesis by simp
  next
    case (Cons r rs)
    with wide have k: "current_step s' + 1 < ncols (states s')"
      by (simp add: ncols_def)
    with len obtain x where x: "set_col (states s') (current_step s' + 1) (flatten xp') = Inr x"
      by (auto simp: set_col_def)
    from col_set_col[OF x] len wide have "col x (current_step s' + 1) = flatten xp'"
      by (simp add: nrows_def)
    with x show ?thesis
      by (intro exI[of _ x]) (simp add: store_posterior_def)
  qed
  from ekf ukf store show ?thesis by blast
qed

text \<open>
  The scalar estimators at step 0 with input 1 and a missing measurement: the EKF stores
  the prediction \<open>0 + 1\<close> with covariance \<open>1 + 1\<close>, the UKF its predicted pair; and the
  store of the EKF's pair into the engine after its history writes.
\<close>

theorem C3_missing_measurement_witness:
  "None \<in> set [None]
   \<and> nextstepEKF linalg_1x1 scalar_plant scalar_ekf [1] [None] =
       Returned (scalar_ekf\<lparr>inputs := [[1, 0, 0]], outputs := [[None, Some 0, Some 0]],
                            states := [[0, 1, 0, 0]], covariance := [[2]], current_step := 1\<rparr>)
   \<and> predict_state scalar_plant (scalar_ekf\<lparr>inputs := [[1, 0, 0]]\<rparr>) = Inr [[1]]
   \<and> nextstepUKF linalg_1x1 scalar_plant scalar_ukf [1] [None] =
       Returned (scalar_ukf\<lparr>inputs := [[1, 0, 0]], outputs := [[None, Some 0, Some 0]],
                            states := [[- 1, 7 / 2, 0, 0]], covariance := [[191 / 8]],
                            current_step := 1\<rparr>)
   \<and> states (scalar_ekf\<lparr>inputs := [[1, 0, 0]]\<rparr>) \<noteq> []
   \<and> length (flatten [[1 :: real]]) = nrows (states (scalar_ekf\<lparr>inputs := [[1, 0, 0]]\<rparr>))
   \<and> list_all (\<lambda>r. current_step (scalar_ekf\<lparr>inputs := [[1, 0, 0]]\<rparr>) + 1 < length r)
         (states (scalar_ekf\<lparr>inputs := [[1, 0, 0]]\<rparr>))
   \<and> store_posterior (scalar_ekf\<lparr>inputs := [[1, 0, 0]]\<rparr>) [[1]] [[2]] =
       Returned (scalar_ekf\<lparr>inputs := [[1, 0, 0]], states := [[0, 1, 0, 0]],
                            covariance := [[2]], current_step := 1\<rparr>)
   \<and> col [[0, 1, 0, 0 :: real]] 1 = [1]"
proof -
  have m: "None \<in> set [None :: real option]"
    by simp
  have p: "predict_state scalar_plant (scalar_ekf\<lparr>inputs := [[1, 0, 0]]\<rparr>) = Inr [[1]]"
    by (simp add: predict_state_def scalar_plant_def scalar_ekf_def linear_plant_def arr_defs
        Let_def numeral_2_eq_2 numeral_3_eq_3 upt_eval)
  have h: "states (scalar_ekf\<lparr>inputs := [[1, 0, 0]]\<rparr>) \<noteq> []
     \<and> length (flatten [[1 :: real]]) = nrows (states (scalar_ekf\<lparr>inputs := [[1, 0, 0]]\<rparr>))
     \<and> list_all (\<lambda>r. current_step (scalar_ekf\<lparr>inputs := [[1, 0, 0]]\<rparr>) + 1 < length r)
           (states (scalar_ekf\<lparr>inputs := [[1, 0, 0]]\<rparr>))"
    by (simp add: scalar_ekf_def flatten_def nrows_def)
  have st: "store_posterior (scalar_ekf\<lparr>inputs := [[1, 0, 0]]\<rparr>) [[1]] [[2]] =
       Returned (scalar_ekf\<lparr>inputs := [[1, 0, 0]], states := [[0, 1, 0, 0]],
                            covariance := [[2]], current_step := 1\<rparr>)"
    by (simp add: store_posterior_def scalar_ekf_def arr_defs)
  have c: "col [[0, 1, 0, 0 :: real]] 1 = [1]"
    by (simp add: col_def)
  show ?thesis
    using C3_missing_measurement_is_prediction_only
            [where y = "[None]" and la = linalg_1x1 and p = scalar_plant and s = scalar_ekf
               and u = "[1]" and s' = "scalar_ekf\<lparr>inputs := [[1, 0, 0]]\<rparr>"
               and xp' = "[[1]]" and pp' = "[[2]]", OF m]
      scalar_ekf_missing_tick [of linalg_1x1] scalar_ukf_missing_tick p h st c
    by simp
qed

subsection \<open>C4: what a tick writes into the state history\<close>

text \<open>
  Claim C4 says that a tick at step \<open>k\<close> writes the state history at column \<open>k + 1\<close> only.
  The code writes column \<open>k\<close> as well, evaluated here at step 0 of estimators built by
  the constructor over the time line \<open>0, 1, 2\<close>, whose column 0 is the initial condition.

  The EKF tick of \<open>QuadrupleTank\<close> with input \<open>[0, 0]\<close> and output \<open>[0, 0]\<close>:
  \<open>_jacobians\<close> replaces column 0 of \<open>self.states\<close>, the zero initial condition, by
  \<open>1/1000\<close> in every row, and then the tick raises \<open>AttributeError\<close> on \<open>self.q_matrix\<close>.
  With a \<open>q_matrix\<close> set on the plant and a missing measurement the tick returns, with
  column 0 overwritten in the same way and the posterior in column 1.

  The UKF tick of the scalar linear plant with input 1 and a missing measurement:
  \<open>changed_full_state = self.states\<close> makes every write of a sigma point a write into the
  state history, so the tick returns with the last sigma point, \<open>0 - 1\<close>, in column 0.
\<close>

theorem C4_column_k_is_overwritten:
  "Nonlinear_init QuadrupleTank [0, 1, 2] ekf_kwargs = Inr qt_ekf
   \<and> col (states qt_ekf) 0 = [0, 0, 0, 0]
   \<and> estimate la QuadrupleTank qt_ekf [0, 0] [Some 0, Some 0] =
       Raised AttributeError
         (qt_ekf\<lparr>states := [[1 / 1000, 0, 0, 0], [1 / 1000, 0, 0, 0],
                            [1 / 1000, 0, 0, 0], [1 / 1000, 0, 0, 0]]\<rparr>)
   \<and> (\<exists>pm. estimate la (QuadrupleTank\<lparr>q_matrix := Some (smul (2 / 10) (eye 4))\<rparr>) qt_ekf
               [0, 0] [None, None] =
             Returned (qt_ekf\<lparr>outputs := [[None, Some 0, Some 0], [None, Some 0, Some 0]],
                              states := [[1 / 1000, 1 / 1000, 0, 0], [1 / 1000, 1 / 1000, 0, 0],
                                         [1 / 1000, 0, 0, 0], [1 / 1000, 0, 0, 0]],
                              covariance := pm, current_step := 1\<rparr>))
   \<and> Nonlinear_init scalar_plant [0, 1, 2] ukf_kwargs = Inr scalar_ukf
   \<and> col (states scalar_ukf) 0 = [0]
   \<and> estimate linalg_1x1 scalar_plant scalar_ukf [1] [None] =
       Returned (scalar_ukf\<lparr>inputs := [[1, 0, 0]], outputs := [[None, Some 0, Some 0]],
                            states := [[- 1, 7 / 2, 0, 0]], covariance := [[191 / 8]],
                            current_step := 1\<rparr>)"
proof -
  have c0: "col (states qt_ekf) 0 = [0, 0, 0, 0]" "col (states scalar_ukf) 0 = [0]"
    by (simp_all add: qt_ekf_def scalar_ukf_def scalar_ekf_def col_def)
  have raised: "estimate la QuadrupleTank qt_ekf [0, 0] [Some 0, Some 0] =
       Raised AttributeError
         (qt_ekf\<lparr>states := [[1 / 1000, 0, 0, 0], [1 / 1000, 0, 0, 0],
                            [1 / 1000, 0, 0, 0], [1 / 1000, 0, 0, 0]]\<rparr>)"
    by (simp add: estimate_def nextstepEKF_def record_and_linearise_def predict_state_def
        dynamic_runner_def QuadrupleTank_def QuadrupleTank_jacobians_def
        QuadrupleTank_dynamics_def QuadrupleTank_limitations_def qt_ekf_def arr_defs Let_def
        eval_nat_numeral upt_eval)
  have sq: "1 \<le> sqrt (981 / 500 :: real)"
    by simp
  have returned: "\<exists>pm. estimate la (QuadrupleTank\<lparr>q_matrix := Some (smul (2 / 10) (eye 4))\<rparr>)
               qt_ekf [0, 0] [None, None] =
             Returned (qt_ekf\<lparr>outputs := [[None, Some 0, Some 0], [None, Some 0, Some 0]],
                              states := [[1 / 1000, 1 / 1000, 0, 0], [1 / 1000, 1 / 1000, 0, 0],
                                         [1 / 1000, 0, 0, 0], [1 / 1000, 0, 0, 0]],
                              covariance := pm, current_step := 1\<rparr>)"
    apply (simp add: estimate_def nextstepEKF_def record_and_linearise_def predict_state_def
        dynamic_runner_def QuadrupleTank_def QuadrupleTank_jacobians_def
        QuadrupleTank_dynamics_def QuadrupleTank_limitations_def qt_ekf_def ekf_posterior_def
        store_posterior_def set_col_def nrows_def ncols_def col_def reshape_col_def
        flatten_def zeros_def mat_add_def smul_def Let_def eval_nat_numeral upt_eval max_def)
    using sq apply linarith
    done
  have ukf: "estimate linalg_1x1 scalar_plant scalar_ukf [1] [None] =
       Returned (scalar_ukf\<lparr>inputs := [[1, 0, 0]], outputs := [[None, Some 0, Some 0]],
                            states := [[- 1, 7 / 2, 0, 0]], covariance := [[191 / 8]],
                            current_step := 1\<rparr>)"
    using scalar_ukf_missing_tick
    by (simp add: estimate_def scalar_ukf_def scalar_ekf_def)
  from qt_ekf_constructed(1) scalar_ukf_constructed c0 raised returned ukf
  show ?thesis by blast
qed

subsection \<open>C5: reset\<close>

text \<open>
  Claim C5 says that \<open>reset()\<close> returns every mutable field of every stateful component to
  its constructor-time value, and in particular that after \<open>estimate()\<close> calls and a
  \<open>reset()\<close> the error covariance of a \<open>Nonlinear\<close> estimator is the constructor-time one
  again, so that a second run repeats the first. It is not: the scalar EKF is built with
  covariance 1; after one tick (input 1, measurement 1) and \<open>reset()\<close> its covariance is
  \<open>2/3\<close>, and the same tick again ends with covariance \<open>5/8\<close> where the first run ended with
  \<open>2/3\<close>. Nor does \<open>reset()\<close> of a \<open>Scope\<close>: the scope built with the signals
  \<open>[[1, 2], [3, 4]]\<close> holds \<open>[[9, 2], [9, 4]]\<close> after \<open>get([9, 9])\<close> and still after
  \<open>reset()\<close>.
\<close>

theorem C5_reset_counterexample:
  "Nonlinear_init scalar_plant [0, 1, 2] ekf_kwargs = Inr scalar_ekf
   \<and> covariance scalar_ekf = [[1]]
   \<and> estimate linalg_1x1 scalar_plant scalar_ekf [1] [Some 1] =
     Returned (scalar_ekf\<lparr>inputs := [[1, 0, 0]], outputs := [[Some 1, Some 0, Some 0]],
                          states := [[0, 1, 0, 0]], covariance := [[2 / 3]],
                          current_step := 1\<rparr>)
   \<and> covariance (reset (scalar_ekf\<lparr>inputs := [[1, 0, 0]],
                          outputs := [[Some 1, Some 0, Some 0]],
                          states := [[0, 1, 0, 0]], covariance := [[2 / 3]],
                          current_step := 1\<rparr>)) = [[2 / 3]]
   \<and> estimate linalg_1x1 scalar_plant
        (reset (scalar_ekf\<lparr>inputs := [[1, 0, 0]], outputs := [[Some 1, Some 0, Some 0]],
                          states := [[0, 1, 0, 0]], covariance := [[2 / 3]],
                          current_step := 1\<rparr>)) [1] [Some 1] =
     Returned (scalar_ekf\<lparr>inputs := [[1, 0, 0]], outputs := [[Some 1, Some 0, Some 0]],
                          states := [[0, 1, 0, 0]], covariance := [[5 / 8]],
                          current_step := 1\<rparr>)
   \<and> Scope_init [0, 1] 2 [[1, 2], [3, 4]] = Inr scope_a
   \<and> signals scope_a = [[1, 2], [3, 4]]
   \<and> Scope_get scope_a [9, 9] [[0], [0]] =
     Returned (scope_a\<lparr>signals := [[9, 2], [9, 4]], sc_current_step := 1\<rparr>)
   \<and> signals (Scope_reset (scope_a\<lparr>signals := [[9, 2], [9, 4]], sc_current_step := 1\<rparr>)) =
     [[9, 2], [9, 4]]"
proof -
  have second: "nextstepEKF linalg_1x1 scalar_plant
        (scalar_ekf\<lparr>inputs := [[1, 0, 0]], outputs := [[Some 1, Some 0, Some 0]],
                          states := [[0, 1, 0, 0]], covariance := [[2 / 3]],
                          current_step := 0\<rparr>) [1] [Some 1] =
     Returned (scalar_ekf\<lparr>inputs := [[1, 0, 0]], outputs := [[Some 1, Some 0, Some 0]],
                          states := [[0, 1, 0, 0]], covariance := [[5 / 8]],
                          current_step := 1\<rparr>)"
    by (simp add: nextstepEKF_def ekf_posterior_def scalar_plant_def scalar_ekf_def
      linear_plant_def linalg_1x1_def inv_1x1_def record_and_linearise_def predict_state_def
      predict_cov_def store_posterior_def arr_defs Let_def numeral_2_eq_2 numeral_3_eq_3
      upt_eval)
  have built: "Scope_init [0, 1] 2 [[1, 2], [3, 4]] = Inr scope_a"
    by (simp add: Scope_init_def scope_a_def arr_defs Let_def)
  have got: "Scope_get scope_a [9, 9] [[0], [0]] =
     Returned (scope_a\<lparr>signals := [[9, 2], [9, 4]], sc_current_step := 1\<rparr>)"
    by (simp add: Scope_get_def np_add_flat_def set_col_def scope_a_def arr_defs)
  have engine: "Nonlinear_init scalar_plant [0, 1, 2] ekf_kwargs = Inr scalar_ekf
   \<and> covariance scalar_ekf = [[1]]
   \<and> estimate linalg_1x1 scalar_plant scalar_ekf [1] [Some 1] =
     Returned (scalar_ekf\<lparr>inputs := [[1, 0, 0]], outputs := [[Some 1, Some 0, Some 0]],
                          states := [[0, 1, 0, 0]], covariance := [[2 / 3]],
                          current_step := 1\<rparr>)
   \<and> covariance (reset (scalar_ekf\<lparr>inputs := [[1, 0, 0]],
                          outputs := [[Some 1, Some 0, Some 0]],
                          states := [[0, 1, 0, 0]], covariance := [[2 / 3]],
                          current_step := 1\<rparr>)) = [[2 / 3]]
   \<and> estimate linalg_1x1 scalar_plant
        (reset (scalar_ekf\<lparr>inputs := [[1, 0, 0]], outputs := [[Some 1, Some 0, Some 0]],
                          states := [[0, 1, 0, 0]], covariance := [[2 / 3]],
                          current_step := 1\<rparr>)) [1] [Some 1] =
     Returned (scalar_ekf\<lparr>inputs := [[1, 0, 0]], outputs := [[Some 1, Some 0, Some 0]],
                          states := [[0, 1, 0, 0]], covariance := [[5 / 8]],
                          current_step := 1\<rparr>)"
    using scalar_ekf_tick second scalar_ekf_constructed
    by (simp add: estimate_def reset_def scalar_ekf_def)
  have scope: "signals scope_a = [[1, 2], [3, 4]]
    \<and> signals (Scope_reset (scope_a\<lparr>signals := [[9, 2], [9, 4]], sc_current_step := 1\<rparr>)) =
      [[9, 2], [9, 4]]"
    by (simp add: Scope_reset_def scope_a_def)
  from engine built got scope show ?thesis
    by blast
qed

text \<open>
  Claim C5 as amended, for every stateful component. \<open>reset()\<close> of an \<open>LtiGroup\<close>, a
  \<open>LinearKalmanFilter\<close>, a \<open>NeuroIdentifier\<close> or a \<open>NonlinearGroup\<close>, after any number of
  calls, returned or raised, gives back the object that the constructor made: every
  attribute has its constructor-time value, so that the same calls with the same random
  draws, made again after the reset, end as they did the first time. \<open>reset()\<close> of a
  \<open>Nonlinear\<close> engine and of a \<open>Scope\<close> sets the step counter to 0 and leaves every other
  attribute as the calls before it left them: the error covariance and the three
  histories of the engine, the signals of the scope.
\<close>

theorem C5_reset_of_each_component:
  "reset s = s\<lparr>current_step := 0\<rparr>
   \<and> current_step (reset s) = 0
   \<and> covariance (reset s) = covariance s
   \<and> states (reset s) = states s
   \<and> inputs (reset s) = inputs s
   \<and> outputs (reset s) = outputs s
   \<and> lkf_reset (lkf_calls la (lkf_init sys kw) uys) = lkf_init sys kw
   \<and> LtiGroup_reset (LtiGroup_calls (constructed lti) lti_cs) = constructed lti
   \<and> NeuroIdentifier_reset (NeuroIdentifier_calls cl (constructed nid) nid_cs) = constructed nid
   \<and> NonlinearGroup_reset (NonlinearGroup_calls gp (constructed grp) grp_cs) = constructed grp
   \<and> lkf_calls la (lkf_reset (lkf_calls la (lkf_init sys kw) uys)) uys =
     lkf_calls la (lkf_init sys kw) uys
   \<and> LtiGroup_calls (LtiGroup_reset (LtiGroup_calls (constructed lti) lti_cs)) lti_cs =
     LtiGroup_calls (constructed lti) lti_cs
   \<and> NeuroIdentifier_calls cl
       (NeuroIdentifier_reset (NeuroIdentifier_calls cl (constructed nid) nid_cs)) nid_cs =
     NeuroIdentifier_calls cl (constructed nid) nid_cs
   \<and> NonlinearGroup_calls gp
       (NonlinearGroup_reset (NonlinearGroup_calls gp (constructed grp) grp_cs)) grp_cs =
     NonlinearGroup_calls gp (constructed grp) grp_cs
   \<and> Scope_reset sc = sc\<lparr>sc_current_step := 0\<rparr>
   \<and> sc_current_step (Scope_reset sc) = 0
   \<and> signals (Scope_reset sc) = signals sc"
proof -
  have "backup (lkf_calls la (lkf_init sys kw) uys) = lkf_init_fields sys kw"
    by (simp add: lkf_calls_backup lkf_init_def Let_def)
  then have lkf: "lkf_reset (lkf_calls la (lkf_init sys kw) uys) = lkf_init sys kw"
    by (simp add: lkf_reset_def lkf_init_def Let_def)
  have lg: "LtiGroup_reset (LtiGroup_calls (constructed lti) lti_cs) = constructed lti"
    by (simp add: LtiGroup_reset_def LtiGroup_calls_backup constructed_def Let_def)
  have ni: "NeuroIdentifier_reset (NeuroIdentifier_calls cl (constructed nid) nid_cs) =
      constructed nid"
    by (simp add: NeuroIdentifier_reset_def NeuroIdentifier_calls_backup constructed_def
      Let_def)
  have ng: "NonlinearGroup_reset (NonlinearGroup_calls gp (constructed grp) grp_cs) =
      constructed grp"
    by (simp add: NonlinearGroup_reset_def NonlinearGroup_calls_backup constructed_def
      Let_def)
  from lkf lg ni ng show ?thesis
    by (simp add: reset_def Scope_reset_def)
qed
subsection \<open>C6: the linear Kalman filter recursion\<close>

text \<open>
  Claim C6. A call of \<open>LinearKalmanFilter\<close> with input \<open>u\<close> and output \<open>y\<close> performs the
  closed-form recursion on the pre-call \<open>x_ps\<close> and \<open>P_ps\<close>: it stores the six results of
  \<open>closed_form\<close>, the recursion written from the specification, for the inverse that numpy
  returns for \<open>C P_pr C\<^sup>T + R\<close>, and leaves every other attribute and the backup as they
  were. When numpy has no inverse the call raises with \<open>x_pr\<close> and \<open>P_pr\<close> already stored.
\<close>

theorem C6_lkf_call_is_closed_form:
  "lkf_call la u y self =
     (let f = attrs self in
      case np_inv la (innovation_cov (lkf_A f) (lkf_C f) (lkf_Q f) (lkf_R f) (P_ps f)) of
        None \<Rightarrow>
          Raised LinAlgError
            (self\<lparr>attrs := f\<lparr>x_pr := mat_add (mat_mul (lkf_A f) (x_ps f))
                                                  (mat_mul (lkf_B f) (reshape_col u)),
                                  P_pr := mat_add (mat_mul (mat_mul (lkf_A f) (P_ps f))
                                                           (mat_T (lkf_A f))) (lkf_Q f)\<rparr>\<rparr>)
      | Some si \<Rightarrow>
          (case closed_form (lkf_A f) (lkf_B f) (lkf_C f) (lkf_Q f) (lkf_n_states f) si
                  (x_ps f) (P_ps f) u y of
             (xpr, ppr, kg, r, xps, pps) \<Rightarrow>
               Returned (self\<lparr>attrs := f\<lparr>x_pr := xpr, P_pr := ppr, K := kg, res := r,
                                            x_ps := xps, P_ps := pps\<rparr>\<rparr>)))"
  by (simp add: lkf_call_def closed_form_def innovation_cov_def Let_def split: option.split)

text \<open>
  The scenario of the specification, section 8: \<open>A = 0.9\<close>, \<open>B = C = 1\<close>, \<open>Q = 0.01\<close>,
  \<open>R = 0.1\<close>, from \<open>x = 0\<close> (and \<open>P = 1\<close>) with \<open>u = 1\<close> and \<open>y = 1\<close>: the prior is
  \<open>x_pr = 1\<close>, \<open>P_pr = 0.82\<close>, the gain \<open>41/46\<close>, and the posterior \<open>x_ps = 1\<close>,
  \<open>P_ps = 41/460\<close>.
\<close>

theorem C6_lkf_call_witness:
  "lkf_call linalg_1x1 [1] [1]
     (lkf_init (SysTuple [[9 / 10]] [[1]] [[1]] [[0]])
        \<lparr>kw_x_0 = Some [0], kw_P_0 = Some [[1]], kw_process_noise = Some [[1 / 100]],
         kw_measurement_noise = Some [[1 / 10]]\<rparr>) =
   Returned
     \<lparr>attrs = \<lparr>lkf_A = [[9 / 10]], lkf_B = [[1]], lkf_C = [[1]], lkf_D = [[0]],
               lkf_Q = [[1 / 100]], lkf_R = [[1 / 10]], lkf_n_states = 1, lkf_n_inputs = 1,
               lkf_n_outputs = 1, x_pr = [[1]], x_ps = [[1]], res = [[0]], K = [[41 / 46]],
               P_pr = [[41 / 50]], P_ps = [[41 / 460]]\<rparr>,
      backup = \<lparr>lkf_A = [[9 / 10]], lkf_B = [[1]], lkf_C = [[1]], lkf_D = [[0]],
               lkf_Q = [[1 / 100]], lkf_R = [[1 / 10]], lkf_n_states = 1, lkf_n_inputs = 1,
               lkf_n_outputs = 1, x_pr = [[0]], x_ps = [[0]], res = [[0]], K = [[0]],
               P_pr = [[1]], P_ps = [[1]]\<rparr>\<rparr>"
  using C6_lkf_call_is_closed_form [of linalg_1x1 "[1]" "[1]"
      "lkf_init (SysTuple [[9 / 10]] [[1]] [[1]] [[0]])
        \<lparr>kw_x_0 = Some [0], kw_P_0 = Some [[1]], kw_process_noise = Some [[1 / 100]],
         kw_measurement_noise = Some [[1 / 10]]\<rparr>"]
  by (simp add: lkf_init_def lkf_init_fields_def closed_form_def innovation_cov_def
      linalg_1x1_def inv_1x1_def np_all_def arr_defs Let_def numeral_2_eq_2 upt_eval)

subsection \<open>C7: the output history on a tick with a missing measurement\<close>

text \<open>
  Claim C7 says that a tick whose output argument carries the missing-measurement marker
  leaves the output history unchanged. It does not: both ticks write the output argument
  into column \<open>k\<close> before they look at it. The scalar EKF at step 0, with an output
  history of zeros, holds \<open>[[nan, 0, 0]]\<close> after a tick with the output \<open>[nan]\<close>.
\<close>

theorem C7_output_history_counterexample:
  "estimate linalg_1x1 scalar_plant scalar_ekf [1] [None] =
       Returned (scalar_ekf\<lparr>inputs := [[1, 0, 0]], outputs := [[None, Some 0, Some 0]],
                            states := [[0, 1, 0, 0]], covariance := [[2]], current_step := 1\<rparr>)
   \<and> outputs (scalar_ekf\<lparr>inputs := [[1, 0, 0]], outputs := [[None, Some 0, Some 0]],
                            states := [[0, 1, 0, 0]], covariance := [[2]], current_step := 1\<rparr>)
       \<noteq> outputs scalar_ekf"
  using scalar_ekf_missing_tick [of linalg_1x1]
  by (simp add: estimate_def scalar_ekf_def)

text \<open>
  Claim C7 as amended. On an EKF or UKF tick at step \<open>k\<close> that returns, with an output
  argument that carries the missing-measurement marker, the output history is the one
  before the call with the output argument, marker included, written into column \<open>k\<close>,
  and the input history is the one before the call with the input written into column
  \<open>k\<close>; every other column of both histories is as before. When the output argument has
  one entry per output, column \<open>k\<close> of the output history is the output argument.
\<close>

theorem C7_output_column_is_overwritten:
  assumes "None \<in> set y"
    and "nextstepEKF la p s u y = Returned s' \<or> nextstepUKF la p s u y = Returned s'"
  shows "set_col (outputs s) (current_step s) y = Inr (outputs s')
       \<and> set_col (inputs s) (current_step s) u = Inr (inputs s')
       \<and> (\<forall>j. j \<noteq> current_step s \<longrightarrow>
              col (outputs s') j = col (outputs s) j \<and> col (inputs s') j = col (inputs s) j)
       \<and> (length y = nrows (outputs s)
            \<and> list_all (\<lambda>r. current_step s < length r) (outputs s) \<longrightarrow>
              col (outputs s') (current_step s) = y)"
proof -
  from assms(2) have w: "set_col (inputs s) (current_step s) u = Inr (inputs s')
       \<and> set_col (outputs s) (current_step s) y = Inr (outputs s')"
    using nextstepEKF_writes nextstepUKF_writes by blast
  have o: "col (outputs s') j = col (outputs s) j" if "j \<noteq> current_step s" for j
    using w that set_col_other by blast
  have i: "col (inputs s') j = col (inputs s) j" if "j \<noteq> current_step s" for j
    using w that set_col_other by blast
  have k: "col (outputs s') (current_step s) = y"
    if "length y = nrows (outputs s)" "list_all (\<lambda>r. current_step s < length r) (outputs s)"
    using w that col_set_col by (auto simp: nrows_def)
  from w o i k show ?thesis by blast
qed

text \<open>
  The scalar EKF at step 0 with input 1 and the output \<open>[nan]\<close>: column 0 of the output
  history becomes \<open>[nan]\<close>, column 1 stays as it was.
\<close>

theorem C7_output_column_witness:
  "None \<in> set [None]
   \<and> nextstepEKF linalg_1x1 scalar_plant scalar_ekf [1] [None] =
       Returned (scalar_ekf\<lparr>inputs := [[1, 0, 0]], outputs := [[None, Some 0, Some 0]],
                            states := [[0, 1, 0, 0]], covariance := [[2]], current_step := 1\<rparr>)
   \<and> length [None :: real option] = nrows (outputs scalar_ekf)
   \<and> list_all (\<lambda>r. current_step scalar_ekf < length r) (outputs scalar_ekf)
   \<and> set_col (outputs scalar_ekf) (current_step scalar_ekf) [None] = Inr [[None, Some 0, Some 0]]
   \<and> set_col (inputs scalar_ekf) (current_step scalar_ekf) [1] = Inr [[1, 0, 0]]
   \<and> col [[None, Some 0, Some (0::real)]] 0 = [None]
   \<and> 1 \<noteq> current_step scalar_ekf
   \<and> col [[None, Some 0, Some (0::real)]] 1 = col (outputs scalar_ekf) 1"
proof -
  have m: "None \<in> set [None :: real option]"
    by simp
  have h: "length [None :: real option] = nrows (outputs scalar_ekf)
     \<and> list_all (\<lambda>r. current_step scalar_ekf < length r) (outputs scalar_ekf)
     \<and> 1 \<noteq> current_step scalar_ekf"
    by (simp add: scalar_ekf_def nrows_def)
  show ?thesis
    using C7_output_column_is_overwritten
        [where y = "[None]" and la = linalg_1x1 and p = scalar_plant and s = scalar_ekf
           and u = "[1]"
           and s' = "scalar_ekf\<lparr>inputs := [[1, 0, 0]], outputs := [[None, Some 0, Some 0]],
                       states := [[0, 1, 0, 0]], covariance := [[2]], current_step := 1\<rparr>",
         OF m]
      scalar_ekf_missing_tick [of linalg_1x1] h
    by (simp add: scalar_ekf_def arr_defs)
qed

subsection \<open>C8: append and select on scopes\<close>

text \<open>
  Claim C8 says that \<open>scope_1.append(scope_2, select)\<close> stacks \<open>scope_1.signals[select]\<close>
  on \<open>scope_2.signals[select]\<close>, and that selecting the same positions \<open>select\<close> from the
  result gives back the original sub-matrix. The second part fails: the rows of the result
  are numbered from 0, not by \<open>select\<close>. For the two scopes with signals
  \<open>[[1, 2], [3, 4]]\<close> and \<open>[[5, 6], [7, 8]]\<close> and \<open>select = [1]\<close>, the result holds
  \<open>[[3, 4], [7, 8]]\<close>, and \<open>select([1])\<close> on it gives \<open>[[7, 8]]\<close>, a row of the second
  scope, where \<open>scope_1.signals[select]\<close> is \<open>[[3, 4]]\<close>.
\<close>

theorem C8_select_same_indices_counterexample:
  "Scope_append scope_a scope_b (Some [1]) =
     Inr \<lparr>sc_time_line = [0, 1], n_signals = 2, signals = [[3, 4], [7, 8]],
          sc_current_step = 0, sc_n = 2\<rparr>
   \<and> Scope_select \<lparr>sc_time_line = [0, 1], n_signals = 2, signals = [[3, 4], [7, 8]],
                    sc_current_step = 0, sc_n = 2\<rparr> [1] =
     Inr \<lparr>sc_time_line = [0, 1], n_signals = 1, signals = [[7, 8]],
          sc_current_step = 0, sc_n = 2\<rparr>
   \<and> take_rows (signals scope_a) [1] = Inr [[3, 4]]
   \<and> [[7, 8]] \<noteq> [[3, 4 :: real]]"
  by (simp add: Scope_append_def Scope_select_def Scope_init_def take_rows_def vconcat_def
      scope_a_def scope_b_def nrows_def ncols_def zeros_def Let_def)

text \<open>
  Claim C8 as amended. For two scopes whose signal arrays have one column per instant of
  a time line that is not empty, and a list \<open>select\<close> of row indices that both arrays
  have, \<open>scope_1.append(scope_2, select)\<close> returns a scope whose first \<open>len(select)\<close> rows
  are \<open>scope_1.signals[select]\<close> and whose remaining \<open>len(select)\<close> rows are
  \<open>scope_2.signals[select]\<close>; selecting the positions \<open>0, ..., len(select) - 1\<close> from the
  result with \<open>select()\<close> gives \<open>scope_1.signals[select]\<close>, and selecting the positions
  \<open>len(select), ..., 2 len(select) - 1\<close> gives \<open>scope_2.signals[select]\<close>.
\<close>

theorem C8_append_then_select:
  assumes "length (sc_time_line s1) = t" "0 < t"
    and "rect n1 t (signals s1)" "rect n2 t (signals s2)"
    and "list_all (\<lambda>i. i < n1 \<and> i < n2) sel"
  shows "\<exists>r q1 q2.
           Scope_append s1 s2 (Some sel) = Inr r
         \<and> take (length sel) (signals r) = map (\<lambda>i. signals s1 ! i) sel
         \<and> drop (length sel) (signals r) = map (\<lambda>i. signals s2 ! i) sel
         \<and> length (signals r) = 2 * length sel
         \<and> Scope_select r [0..<length sel] = Inr q1
         \<and> signals q1 = map (\<lambda>i. signals s1 ! i) sel
         \<and> Scope_select r [length sel..<2 * length sel] = Inr q2
         \<and> signals q2 = map (\<lambda>i. signals s2 ! i) sel"
proof -
  let ?x = "map (\<lambda>i. signals s1 ! i) sel" and ?y = "map (\<lambda>i. signals s2 ! i) sel"
  let ?m = "length sel"
  let ?r = "\<lparr>sc_time_line = sc_time_line s1, n_signals = 2 * ?m, signals = ?x @ ?y,
            sc_current_step = 0, sc_n = t\<rparr>"
  from assms(5) have sel1: "list_all (\<lambda>i. i < n1) sel" and sel2: "list_all (\<lambda>i. i < n2) sel"
    by (auto simp: list_all_iff)
  from assms(3,4) have len: "length (signals s1) = n1" "length (signals s2) = n2"
    by (simp_all add: rect_def)
  have tx: "take_rows (signals s1) sel = Inr ?x" "take_rows (signals s2) sel = Inr ?y"
    using sel1 sel2 len by (simp_all add: take_rows_ok)
  have rx: "rect ?m t ?x" and ry: "rect ?m t ?y"
    using rect_rows[OF assms(3) sel1] rect_rows[OF assms(4) sel2] by simp_all
  have rxy: "rect (2 * ?m) t (?x @ ?y)"
    using rect_append[OF rx ry] by (simp add: mult_2)
  have app: "Scope_append s1 s2 (Some sel) = Inr ?r"
    using tx vconcat_rect[OF rx ry] Scope_init_rect[OF rxy assms(1,2)]
    by (simp add: Scope_append_def)
  have rows1: "map (\<lambda>i. (?x @ ?y) ! i) [0..<?m] = ?x"
    by (intro nth_equalityI) (auto simp: nth_append)
  have rows2: "map (\<lambda>i. (?x @ ?y) ! i) [?m..<2 * ?m] = ?y"
    using map_nth_upt_drop[of ?x ?y] by (simp add: mult_2)
  have s1: "Scope_select ?r [0..<?m] =
      Inr \<lparr>sc_time_line = sc_time_line s1, n_signals = ?m, signals = ?x,
           sc_current_step = 0, sc_n = t\<rparr>"
    using Scope_init_rect[OF rx assms(1,2)] rows1
    by (simp add: Scope_select_def take_rows_def nrows_def list_all_iff)
  have s2: "Scope_select ?r [?m..<2 * ?m] =
      Inr \<lparr>sc_time_line = sc_time_line s1, n_signals = ?m, signals = ?y,
           sc_current_step = 0, sc_n = t\<rparr>"
    using Scope_init_rect[OF ry assms(1,2)] rows2
    by (simp add: Scope_select_def take_rows_def nrows_def list_all_iff)
  have tk: "take ?m (signals ?r) = ?x" and dr: "drop ?m (signals ?r) = ?y"
    and ln: "length (signals ?r) = 2 * ?m"
    by simp_all
  from app tk dr ln s1 s2 show ?thesis
    by (metis Scope.select_convs(3))
qed


theorem C8_append_then_select_witness:
  "length (sc_time_line scope_a) = 2 \<and> (0 :: nat) < 2
   \<and> rect 2 2 (signals scope_a) \<and> rect 2 2 (signals scope_b)
   \<and> list_all (\<lambda>i. i < 2 \<and> i < 2) [1 :: nat]
   \<and> (\<exists>r q1 q2.
           Scope_append scope_a scope_b (Some [1]) = Inr r
         \<and> signals r = [[3, 4], [7, 8]]
         \<and> Scope_select r [0..<1] = Inr q1 \<and> signals q1 = [[3, 4]]
         \<and> Scope_select r [1..<2] = Inr q2 \<and> signals q2 = [[7, 8]])"
proof -
  have h: "length (sc_time_line scope_a) = 2" "(0::nat) < 2" "rect 2 2 (signals scope_a)"
    "rect 2 2 (signals scope_b)" "list_all (\<lambda>i. i < 2 \<and> i < 2) [1 :: nat]"
    by (simp_all add: scope_a_def scope_b_def rect_def)
  from C8_append_then_select [OF h] obtain r q1 q2 where
    r: "Scope_append scope_a scope_b (Some [1]) = Inr r"
    and q: "Scope_select r [0..<length [1 :: nat]] = Inr q1"
      "signals q1 = map (\<lambda>i. signals scope_a ! i) [1]"
      "Scope_select r [length [1 :: nat]..<2 * length [1 :: nat]] = Inr q2"
      "signals q2 = map (\<lambda>i. signals scope_b ! i) [1]"
    by blast
  have sr: "signals r = [[3, 4], [7, 8]]"
    using r
    by (auto simp: Scope_append_def Scope_init_def take_rows_def vconcat_def
      scope_a_def scope_b_def nrows_def ncols_def zeros_def Let_def)
  from h r q sr show ?thesis
    by (auto simp: scope_a_def scope_b_def)
qed

subsection \<open>C9: the Jacobians of the Lorenz plant\<close>

text \<open>
  Claim C9. Every call of \<open>Lorenz._jacobians\<close> raises \<open>NameError\<close>: the return statement
  reads \<open>B\<close> and \<open>D\<close>, which the function never binds, so EKF or UKF estimation of the
  Lorenz plant fails on its first tick. The call is made on the state history of the plant,
  an array with the three state rows and a column \<open>k\<close>; on such an array it raises
  \<open>NameError\<close> and leaves the array as it was, and on no array at all does it return. An
  estimator that the constructor built for the plant (with \<open>num_states\<close> added to the
  class or not) over a time line that is not empty raises \<open>NameError\<close> on its first tick,
  for an input of one entry and an output of two.
\<close>

theorem C9_Lorenz_jacobians_raise_NameError:
  "(2 < nrows x \<and> k < ncols x \<longrightarrow> Lorenz_jacobians x us k st t = (Inl NameError, x))
   \<and> (\<exists>e. fst (Lorenz_jacobians x us k st t) = Inl e)
   \<and> (Nonlinear_init (Lorenz\<lparr>num_states := ns\<rparr>) tline kw = Inr s
        \<and> kw_estimator kw \<noteq> None
        \<and> kw_approach kw \<in> {None, Some ''ekf'', Some ''ukf''}
        \<and> tline \<noteq> [] \<and> length u = 1 \<and> length y = 2
      \<longrightarrow> (\<exists>s'. estimate la (Lorenz\<lparr>num_states := ns\<rparr>) s u y = Raised NameError s'))"
proof -
  have tick: "\<exists>s'. estimate la (Lorenz\<lparr>num_states := ns\<rparr>) s u y = Raised NameError s'"
    if init: "Nonlinear_init (Lorenz\<lparr>num_states := ns\<rparr>) tline kw = Inr s"
      and est: "kw_estimator kw \<noteq> None"
      and app: "kw_approach kw \<in> {None, Some ''ekf'', Some ''ukf''}"
      and ne: "tline \<noteq> []" and lu: "length u = 1" and ly: "length y = 2"
  proof -
    note i = Lorenz_init[OF init]
    from ne have T: "0 < length tline"
      by simp
    from T lu obtain inp where inp: "set_col (inputs s) (current_step s) u = Inr inp"
      by (cases tline) (auto simp: i set_col_def zeros_def nrows_def ncols_def)
    from T ly obtain out where out: "set_col (outputs s) (current_step s) y = Inr out"
      by (cases tline) (auto simp: i set_col_def nrows_def ncols_def numeral_2_eq_2)
    have j: "jacobians (Lorenz\<lparr>num_states := ns\<rparr>) = Lorenz_jacobians"
      by (simp add: Lorenz_def)
    have r: "record_and_linearise (Lorenz\<lparr>num_states := ns\<rparr>) s u y
              = Inl (NameError, s\<lparr>inputs := inp, outputs := out\<rparr>)"
      using Lorenz_linearise[OF _ inp out _ _ j] T by (simp add: i)
    from est i have e: "estimator s"
      by simp
    with i app have a: "est_approach s = Some ''ekf'' \<or> est_approach s = Some ''ukf''"
      by auto
    from e a r show ?thesis
      by (auto simp: estimate_def nextstepEKF_def nextstepUKF_def)
  qed
  from Lorenz_jacobians_NameError Lorenz_jacobians_raise tick show ?thesis
    by blast
qed

text \<open>
  The Lorenz class as it is, over the time line \<open>0, 1, 2\<close>: the Jacobians at the initial
  condition, and the first tick of the EKF estimator.
\<close>

theorem C9_Lorenz_witness:
  "2 < nrows [[1, 0], [1, 0], [1, 0 :: real]] \<and> 0 < ncols [[1, 0], [1, 0], [1, 0 :: real]]
   \<and> Lorenz_jacobians [[1, 0], [1, 0], [1, 0]] [[0]] 0 1 0
       = (Inl NameError, [[1, 0], [1, 0], [1, 0]])
   \<and> kw_estimator ekf_kwargs \<noteq> None
   \<and> kw_approach ekf_kwargs \<in> {None, Some ''ekf'', Some ''ukf''}
   \<and> [0, 1, 2 :: real] \<noteq> [] \<and> length [0 :: real] = 1 \<and> length [Some 0, Some (0 :: real)] = 2
   \<and> (\<exists>s s'. Nonlinear_init Lorenz [0, 1, 2] ekf_kwargs = Inr s
         \<and> estimate linalg_1x1 Lorenz s [0] [Some 0, Some 0] = Raised NameError s')"
proof -
  have L: "Lorenz\<lparr>num_states := None\<rparr> = Lorenz"
    by (simp add: Lorenz_def)
  have sh: "2 < nrows [[1, 0], [1, 0], [1, 0 :: real]]
     \<and> 0 < ncols [[1, 0], [1, 0], [1, 0 :: real]]"
    by (simp add: nrows_def ncols_def)
  have kw: "kw_estimator ekf_kwargs \<noteq> None
     \<and> kw_approach ekf_kwargs \<in> {None, Some ''ekf'', Some ''ukf''}"
    by (simp add: ekf_kwargs_def)
  show ?thesis
    using C9_Lorenz_jacobians_raise_NameError
        [of "[[1, 0], [1, 0], [1, 0]]" 0 "[[0]]" 1 0 None "[0, 1, 2]" ekf_kwargs _ "[0]"
          "[Some 0, Some 0]" linalg_1x1]
      sh kw Lorenz_ekf_constructed
    by (simp add: L)
qed

subsection \<open>C10: the feedthrough matrix at construction\<close>

text \<open>
  Claim C10. At construction of \<open>LtiGroup\<close> from \<open>(A, B, C, D)\<close> and of
  \<open>LinearKalmanFilter\<close> (from a tuple or from an \<open>LtiGroup\<close>), a supplied \<open>D\<close> with at least
  one zero entry is replaced by the all-zero matrix of shape \<open>(n_outputs, n_inputs)\<close>, and a
  \<open>D\<close> whose entries are all nonzero is stored as given.
\<close>

theorem C10_feedthrough_at_construction:
  "lti_D (LtiGroup_init (a, b, c, d) pn mn) =
     (if \<exists>r \<in> set d. \<exists>x \<in> set r. x = 0
      then zeros (lti_n_outputs (LtiGroup_init (a, b, c, d) pn mn))
                 (lti_n_inputs (LtiGroup_init (a, b, c, d) pn mn))
      else d)
   \<and> lkf_D (attrs (lkf_init (SysTuple a b c d) kw)) =
     (if \<exists>r \<in> set d. \<exists>x \<in> set r. x = 0
      then zeros (lkf_n_outputs (attrs (lkf_init (SysTuple a b c d) kw)))
                 (lkf_n_inputs (attrs (lkf_init (SysTuple a b c d) kw)))
      else d)
   \<and> lkf_D (attrs (lkf_init (SysLti g) kw)) =
     (if \<exists>r \<in> set (lti_D g). \<exists>x \<in> set r. x = 0
      then zeros (lkf_n_outputs (attrs (lkf_init (SysLti g) kw)))
                 (lkf_n_inputs (attrs (lkf_init (SysLti g) kw)))
      else lti_D g)"
proof -
  have all_iff: "np_all m = (\<not> (\<exists>r \<in> set m. \<exists>x \<in> set r. x = 0))" for m
    by (auto simp: np_all_def list_all_iff)
  show ?thesis
    by (simp add: LtiGroup_init_def LtiGroup_system_def lkf_init_def lkf_init_fields_def
        Let_def all_iff)
qed


end
